theory Spec2Isabelle
  imports Main "HOL-Library.Word" "HOL-Library.AList"
begin

section \<open>A Stackdriver formatter for logrus: the model\<close>

text \<open>
  The theory embeds \<^verbatim>\<open>formatter.go\<close>: the origin resolver \<^verbatim>\<open>errorOrigin\<close>, the
  copy \<^verbatim>\<open>replaceErrors\<close>, the entry mapper \<^verbatim>\<open>ToEntry\<close> and \<^verbatim>\<open>Format\<close>.
  Go strings are byte strings, here \<^typ>\<open>string\<close>. Go maps are reference values: they
  live in a store of association lists, so that the copy made by \<^verbatim>\<open>replaceErrors\<close>
  and the deletions made by \<^verbatim>\<open>ToEntry\<close> are visible as store updates.
  The wall clock, the flag \<^verbatim>\<open>skipTimestamp\<close> and the call stack are read from an
  environment that is an argument of the model.
\<close>

subsection \<open>JSON documents\<close>

text \<open>
  What \<^verbatim>\<open>json.Marshal\<close> produces is kept as a tree. An object lists its members
  in the order of the struct fields; the members of a Go map follow the association list
  (\<^verbatim>\<open>encoding/json\<close> writes them sorted by key, which changes no lookup). The byte
  encoding of the tree (escaping) is not part of the model.
\<close>

datatype json =
    JNull
  | JBool bool
  | JNumber int
  | JString string
  | JArray "json list"
  | JObject "(string \<times> json) list"

text \<open>The member of an object under a key; nothing for a value that is not an object.\<close>

fun member :: "string \<Rightarrow> json \<Rightarrow> json option" where
  "member k (JObject ms) = map_of ms k"
| "member k _ = None"

fun is_object :: "json \<Rightarrow> bool" where
  "is_object (JObject ms) = True"
| "is_object _ = False"

subsection \<open>Data types of the package\<close>

type_synonym severity = string

definition severityDebug :: severity where "severityDebug = ''DEBUG''"
definition severityInfo :: severity where "severityInfo = ''INFO''"
definition severityWarning :: severity where "severityWarning = ''WARNING''"
definition severityError :: severity where "severityError = ''ERROR''"
definition severityCritical :: severity where "severityCritical = ''CRITICAL''"
definition severityAlert :: severity where "severityAlert = ''ALERT''"

text \<open>
  \<^verbatim>\<open>logrus.Level\<close> is a \<^verbatim>\<open>uint32\<close>; logrus numbers its levels from
  \<^verbatim>\<open>PanicLevel = 0\<close> to \<^verbatim>\<open>TraceLevel = 6\<close>.
\<close>

type_synonym Level = "32 word"

definition PanicLevel :: Level where "PanicLevel = 0"
definition FatalLevel :: Level where "FatalLevel = 1"
definition ErrorLevel :: Level where "ErrorLevel = 2"
definition WarnLevel :: Level where "WarnLevel = 3"
definition InfoLevel :: Level where "InfoLevel = 4"
definition DebugLevel :: Level where "DebugLevel = 5"
definition TraceLevel :: Level where "TraceLevel = 6"

definition levelsToSeverity :: "(Level \<times> severity) list" where
  "levelsToSeverity =
     [(DebugLevel, severityDebug),
      (InfoLevel, severityInfo),
      (WarnLevel, severityWarning),
      (ErrorLevel, severityError),
      (FatalLevel, severityCritical),
      (PanicLevel, severityAlert)]"

text \<open>\<^verbatim>\<open>levelsToSeverity[l]\<close>: a level that is not in the table gives the empty severity.\<close>

definition severity_of :: "Level \<Rightarrow> severity" where
  "severity_of l = (case map_of levelsToSeverity l of None \<Rightarrow> [] | Some s \<Rightarrow> s)"

definition KeyTrace :: string where "KeyTrace = ''trace''"
definition KeySpanID :: string where "KeySpanID = ''spanID''"
definition KeyHTTPRequest :: string where "KeyHTTPRequest = ''httpRequest''"
definition KeyLogID :: string where "KeyLogID = ''logID''"

text \<open>
  Modelled from the spec: \<^verbatim>\<open>logrus.ErrorKey\<close>, "the host logging library's conventional
  error field", is declared by logrus and not by this package; the expected outputs of
  the package's tests show it as \<^verbatim>\<open>"error"\<close>.
\<close>

definition ErrorKey :: string where "ErrorKey = ''error''"

record ServiceContext =
  Service :: string
  Version :: string

record ReportLocation =
  FilePath :: string
  LineNumber :: int
  FunctionName :: string

record HTTPRequest =
  RequestMethod :: string
  RequestURL :: string
  RequestSize :: string
  Status :: string
  ResponseSize :: string
  UserAgent :: string
  RemoteIP :: string
  ServerIP :: string
  Referer :: string
  Latency :: string
  Protocol :: string

text \<open>
  The dynamic values (\<^verbatim>\<open>interface{}\<close>) of a field map, by what the formatter can
  tell apart with its type assertions: a \<^verbatim>\<open>string\<close>, an \<^verbatim>\<open>error\<close> (with the text
  its \<^verbatim>\<open>Error()\<close> returns), a \<^verbatim>\<open>*HTTPRequest\<close> (\<open>None\<close> is the nil pointer), and
  a value of any other type. The formatter only prints such a value with \<^verbatim>\<open>%s\<close> and
  hands it to \<^verbatim>\<open>json.Marshal\<close>, so it is given by what \<^verbatim>\<open>%s\<close> prints and by its
  JSON encoding, \<open>None\<close> when \<^verbatim>\<open>encoding/json\<close> rejects the type (a channel, a function).
\<close>

datatype val =
    VString string
  | VError string
  | VHTTPRequest "HTTPRequest option"
  | VOther string "json option"

text \<open>
  \<^verbatim>\<open>logrus.Fields\<close> is \<^verbatim>\<open>map[string]interface{}\<close>. A map value is a reference:
  \<open>None\<close> is the nil map, \<open>Some a\<close> the map stored at address \<open>a\<close>.
\<close>

type_synonym Fields = "(string \<times> val) list"
type_synonym addr = nat
type_synonym mapref = "addr option"
type_synonym heap = "Fields list"

record Context =
  Data :: mapref
  ReportLocation :: "ReportLocation option"
  HTTPRequest :: "HTTPRequest option"

text \<open>Pointer fields are options: \<open>None\<close> is the nil pointer.\<close>

record Entry =
  LogName :: string
  Timestamp :: string
  HTTPRequest :: "HTTPRequest option"
  Trace :: string
  SpanID :: string
  ServiceContext :: "ServiceContext option"
  Message :: string
  Severity :: severity
  Context :: "Context option"
  SourceLocation :: "ReportLocation option"

record Formatter =
  Service :: string
  Version :: string
  ProjectID :: string
  StackSkip :: "string list"

text \<open>The fields of \<^verbatim>\<open>logrus.Entry\<close> that the formatter reads.\<close>

record logrus_Entry =
  Data :: mapref
  Message :: string
  Level :: Level

subsection \<open>The store of maps\<close>

text \<open>Reading a nil map finds no key; \<^verbatim>\<open>delete\<close> on a nil map does nothing.\<close>

definition fields_at :: "heap \<Rightarrow> mapref \<Rightarrow> Fields" where
  "fields_at h r =
     (case r of None \<Rightarrow> [] | Some a \<Rightarrow> if a < length h then h ! a else [])"

definition lookup_key :: "heap \<Rightarrow> mapref \<Rightarrow> string \<Rightarrow> val option" where
  "lookup_key h r k = map_of (fields_at h r) k"

text \<open>\<^verbatim>\<open>make\<close> followed by the stores that fill the new map: the next free address.\<close>

definition make_map :: "Fields \<Rightarrow> heap \<Rightarrow> mapref \<times> heap" where
  "make_map m h = (Some (length h), h @ [m])"

definition delete_key :: "heap \<Rightarrow> mapref \<Rightarrow> string \<Rightarrow> heap" where
  "delete_key h r k =
     (case r of
        None \<Rightarrow> h
      | Some a \<Rightarrow> if a < length h then h[a := AList.delete k (h ! a)] else h)"

subsection \<open>Options and construction\<close>

definition WithService :: "string \<Rightarrow> Formatter \<Rightarrow> Formatter" where
  "WithService n f = f\<lparr>Service := n\<rparr>"

definition WithVersion :: "string \<Rightarrow> Formatter \<Rightarrow> Formatter" where
  "WithVersion v f = f\<lparr>Version := v\<rparr>"

definition WithProjectID :: "string \<Rightarrow> Formatter \<Rightarrow> Formatter" where
  "WithProjectID i f = f\<lparr>ProjectID := i\<rparr>"

definition WithStackSkip :: "string \<Rightarrow> Formatter \<Rightarrow> Formatter" where
  "WithStackSkip v f = f\<lparr>StackSkip := StackSkip f @ [v]\<rparr>"

definition NewFormatter :: "(Formatter \<Rightarrow> Formatter) list \<Rightarrow> Formatter" where
  "NewFormatter options =
     fold (\<lambda>option fmtr. option fmtr) options
       \<lparr>Service = [], Version = [], ProjectID = [],
        StackSkip = [''github.com/sirupsen/logrus'']\<rparr>"

subsection \<open>Library functions used by the formatter\<close>

text \<open>
  \<^verbatim>\<open>strings.Index\<close>: the position of the first occurrence of \<open>sep\<close> in \<open>s\<close>.
\<close>

fun Index :: "string \<Rightarrow> string \<Rightarrow> nat option" where
  "Index [] sep = (if sep = [] then Some 0 else None)"
| "Index (c # s) sep =
     (if take (length sep) (c # s) = sep then Some 0 else map_option Suc (Index s sep))"

text \<open>
  \<^verbatim>\<open>strings.SplitN(s, sep, n)\<close> for a separator that is not empty, as at its one
  call: at most \<open>n\<close> parts, cut at the first \<open>n - 1\<close> occurrences of \<open>sep\<close>, the last
  part being the unsplit rest. (With an empty separator Go splits into UTF-8 sequences
  instead; the formatter never does that.)
\<close>

fun SplitN :: "string \<Rightarrow> string \<Rightarrow> nat \<Rightarrow> string list" where
  "SplitN s sep 0 = []"
| "SplitN s sep (Suc 0) = [s]"
| "SplitN s sep (Suc (Suc n)) =
     (case Index s sep of
        None \<Rightarrow> [s]
      | Some m \<Rightarrow> take m s # SplitN (drop (m + length sep) s) sep (Suc n))"

text \<open>Decimal digits, as \<^verbatim>\<open>strconv.AppendInt(_, n, 10)\<close> writes a line number.\<close>

fun show_nat :: "nat \<Rightarrow> string" where
  "show_nat n =
     (if n < 10 then [''0123456789'' ! n]
      else show_nat (n div 10) @ [''0123456789'' ! (n mod 10)])"

declare show_nat.simps [simp del]

datatype error = ErrNoFunc | ErrSyntax | ErrRange | UnsupportedTypeError

definition digit_of :: "char \<Rightarrow> int option" where
  "digit_of c =
     map_of [(CHR ''0'', 0), (CHR ''1'', 1), (CHR ''2'', 2), (CHR ''3'', 3), (CHR ''4'', 4),
             (CHR ''5'', 5), (CHR ''6'', 6), (CHR ''7'', 7), (CHR ''8'', 8), (CHR ''9'', 9)] c"

text \<open>The value of a string of decimal digits, read from the left with accumulator \<open>acc\<close>.\<close>

fun parse_digits :: "int \<Rightarrow> string \<Rightarrow> int option" where
  "parse_digits acc [] = Some acc"
| "parse_digits acc (c # cs) =
     (case digit_of c of None \<Rightarrow> None | Some d \<Rightarrow> parse_digits (10 * acc + d) cs)"

text \<open>
  \<^verbatim>\<open>strconv.ParseInt(s, 10, 64)\<close>: an optional sign and at least one digit. A syntax
  error gives 0, a value out of the range of \<^verbatim>\<open>int64\<close> gives the nearest bound; both
  come with an error.
\<close>

definition ParseInt :: "string \<Rightarrow> int \<times> error option" where
  "ParseInt s =
     (let neg = (s \<noteq> [] \<and> hd s = CHR ''-'');
          body = (if s \<noteq> [] \<and> (hd s = CHR ''+'' \<or> hd s = CHR ''-'') then tl s else s)
      in if body = [] then (0, Some ErrSyntax)
         else case parse_digits 0 body of
                None \<Rightarrow> (0, Some ErrSyntax)
              | Some un \<Rightarrow>
                  if \<not> neg \<and> un \<ge> 2 ^ 63 then (2 ^ 63 - 1, Some ErrRange)
                  else if neg \<and> un > 2 ^ 63 then (- (2 ^ 63), Some ErrRange)
                  else (if neg then - un else un, None))"

text \<open>
  \<^verbatim>\<open>url.QueryEscape\<close>: letters, digits and \<^verbatim>\<open>-_.~\<close> stay, a space becomes
  \<^verbatim>\<open>+\<close>, every other byte becomes \<^verbatim>\<open>%XX\<close> in upper-case hexadecimal.
\<close>

definition shouldEscape :: "char \<Rightarrow> bool" where
  "shouldEscape c =
     (let n = (of_char c :: nat)
      in \<not> ((97 \<le> n \<and> n \<le> 122) \<or> (65 \<le> n \<and> n \<le> 90) \<or> (48 \<le> n \<and> n \<le> 57)
             \<or> c \<in> set ''-_.~''))"

definition escape_byte :: "char \<Rightarrow> string" where
  "escape_byte c =
     (if \<not> shouldEscape c then [c]
      else if c = CHR '' '' then ''+''
      else [CHR ''%'', ''0123456789ABCDEF'' ! (of_char c div 16),
            ''0123456789ABCDEF'' ! (of_char c mod 16)])"

definition QueryEscape :: "string \<Rightarrow> string" where
  "QueryEscape s = concat (map escape_byte s)"

text \<open>
  What the verb \<^verbatim>\<open>%s\<close> of \<^verbatim>\<open>fmt\<close> prints for a dynamic value: a string as it is,
  an error by its \<^verbatim>\<open>Error()\<close>, a pointer to a struct of strings as
  \<^verbatim>\<open>&{f1 f2 ...}\<close>, a nil pointer as a bad-verb notice.
\<close>

definition HTTPRequest_strings :: "HTTPRequest \<Rightarrow> string list" where
  "HTTPRequest_strings r =
     [RequestMethod r, RequestURL r, RequestSize r, Status r, ResponseSize r, UserAgent r,
      RemoteIP r, ServerIP r, Referer r, Latency r, Protocol r]"

fun join_with_space :: "string list \<Rightarrow> string" where
  "join_with_space [] = []"
| "join_with_space [x] = x"
| "join_with_space (x # y # ys) = x @ '' '' @ join_with_space (y # ys)"

fun fmt_s :: "val \<Rightarrow> string" where
  "fmt_s (VString s) = s"
| "fmt_s (VError t) = t"
| "fmt_s (VHTTPRequest None) = ''%!s(*stackdriver.HTTPRequest=<nil>)''"
| "fmt_s (VHTTPRequest (Some r)) = ''&{'' @ join_with_space (HTTPRequest_strings r) @ ''}''"
| "fmt_s (VOther shown j) = shown"

subsection \<open>The call stack\<close>

text \<open>
  A frame of the call stack, by what the verbs of \<^verbatim>\<open>stack.Call\<close> print for it:
  \<^verbatim>\<open>%+k\<close> the import path of the package, \<^verbatim>\<open>%+s\<close> the file path below the source
  root, \<^verbatim>\<open>%d\<close> the line, \<^verbatim>\<open>%n\<close> the function name. A \<^verbatim>\<open>stack.Call\<close> is a frame or
  the zero value \<^verbatim>\<open>stack.Call{}\<close>, here \<open>None\<close>.
\<close>

record Frame =
  pkgPath :: string
  filePath :: string
  lineNo :: nat
  funcName :: string

type_synonym Call = "Frame option"

text \<open>
  The environment of a call: the flag \<^verbatim>\<open>skipTimestamp\<close>, the text of
  \<^verbatim>\<open>time.Now().UTC().Format(time.RFC3339Nano)\<close>, and the call stack as
  \<^verbatim>\<open>errorOrigin\<close> sees it, its own frame at index 0.
\<close>

record Env =
  skipTimestamp :: bool
  now :: string
  callers :: "Frame list"

text \<open>\<^verbatim>\<open>stack.Caller(i)\<close>: the zero value beyond the end of the stack.\<close>

definition Caller :: "Frame list \<Rightarrow> nat \<Rightarrow> Call" where
  "Caller st i = (if i < length st then Some (st ! i) else None)"

text \<open>
  \<^verbatim>\<open>Call.MarshalText\<close> fails with \<^verbatim>\<open>ErrNoFunc\<close> on the zero value; on a frame it
  gives what \<^verbatim>\<open>%v\<close> prints, the file name without its directories and the line.
\<close>

definition base_name :: "string \<Rightarrow> string" where
  "base_name p = rev (takeWhile (\<lambda>c. c \<noteq> CHR ''/'') (rev p))"

definition MarshalText :: "Call \<Rightarrow> error + string" where
  "MarshalText c =
     (case c of
        None \<Rightarrow> Inl ErrNoFunc
      | Some fr \<Rightarrow> Inr (base_name (filePath fr) @ '':'' @ show_nat (lineNo fr)))"

text \<open>The verbs; on the zero value each prints \<^verbatim>\<open>%!<verb>(NOFUNC)\<close>.\<close>

definition fmt_plus_k :: "Call \<Rightarrow> string" where
  "fmt_plus_k c = (case c of None \<Rightarrow> ''%!k(NOFUNC)'' | Some fr \<Rightarrow> pkgPath fr)"

definition fmt_plus_s :: "Call \<Rightarrow> string" where
  "fmt_plus_s c = (case c of None \<Rightarrow> ''%!s(NOFUNC)'' | Some fr \<Rightarrow> filePath fr)"

definition fmt_d :: "Call \<Rightarrow> string" where
  "fmt_d c = (case c of None \<Rightarrow> ''%!d(NOFUNC)'' | Some fr \<Rightarrow> show_nat (lineNo fr))"

definition fmt_n :: "Call \<Rightarrow> string" where
  "fmt_n c = (case c of None \<Rightarrow> ''%!n(NOFUNC)'' | Some fr \<Rightarrow> funcName fr)"

subsection \<open>errorOrigin\<close>

definition skip :: "Formatter \<Rightarrow> string \<Rightarrow> bool" where
  "skip f p = (p \<in> set (StackSkip f))"

text \<open>Lines 163 to 166: the package path with the vendoring removed.\<close>

definition strip_vendor :: "string \<Rightarrow> string" where
  "strip_vendor p = (let parts = SplitN p ''/vendor/'' 2 in parts ! (length parts - 1))"

text \<open>
  The loop of \<^verbatim>\<open>errorOrigin\<close> from frame \<open>i\<close> on. Every return of the source gives
  a nil error, here \<open>None\<close> in the second component.
\<close>

function errorOrigin_from :: "Formatter \<Rightarrow> Frame list \<Rightarrow> nat \<Rightarrow> Call \<times> error option" where
  "errorOrigin_from f st i =
     (let c = Caller st i
      in case MarshalText c of
           Inl err \<Rightarrow> (None, None)
         | Inr txt \<Rightarrow>
             if \<not> skip f (strip_vendor (fmt_plus_k c)) then (c, None)
             else errorOrigin_from f st (i + 1))"
  by pat_completeness auto
termination
  by (relation "measure (\<lambda>(f, st, i). length st - i)")
     (auto simp: Caller_def MarshalText_def split: if_splits)

declare errorOrigin_from.simps [simp del]

definition errorOrigin :: "Env \<Rightarrow> Formatter \<Rightarrow> Call \<times> error option" where
  "errorOrigin env f = errorOrigin_from f (callers env) 3"

subsection \<open>Type assertions\<close>

text \<open>
  \<^verbatim>\<open>val.(string)\<close>, \<^verbatim>\<open>val.(*HTTPRequest)\<close> and the case \<^verbatim>\<open>error\<close> of a type
  switch: the value under its type when the dynamic type is the asserted one.
\<close>

fun as_string :: "val \<Rightarrow> string option" where
  "as_string (VString str) = Some str"
| "as_string _ = None"

fun as_HTTPRequest :: "val \<Rightarrow> HTTPRequest option option" where
  "as_HTTPRequest (VHTTPRequest req) = Some req"
| "as_HTTPRequest _ = None"

fun as_error :: "val \<Rightarrow> string option" where
  "as_error (VError txt) = Some txt"
| "as_error _ = None"

subsection \<open>replaceErrors\<close>

definition replace_error :: "val \<Rightarrow> val" where
  "replace_error v = (case as_error v of Some txt \<Rightarrow> VString txt | None \<Rightarrow> v)"

text \<open>
  A new map that holds, for each key of the source, the value of the source or the text
  of its error. A Go map has each key once, so the stores \<^verbatim>\<open>data[k] = ...\<close> of the
  loop build the list of the source with the values replaced. The source is only read.
\<close>

definition replaceErrors :: "mapref \<Rightarrow> heap \<Rightarrow> mapref \<times> heap" where
  "replaceErrors source h =
     make_map (map (\<lambda>(k, v). (k, replace_error v)) (fields_at h source)) h"

subsection \<open>ToEntry\<close>

text \<open>
  \<^verbatim>\<open>ee.Context\<close> is a pointer that \<^verbatim>\<open>ToEntry\<close> sets at line 196 and then writes
  through: \<open>on_Context\<close> is such a write, \<open>ctx_Data\<close> reads \<^verbatim>\<open>ee.Context.Data\<close>.
\<close>

definition on_Context :: "(Context \<Rightarrow> Context) \<Rightarrow> Entry \<Rightarrow> Entry" where
  "on_Context g ee = ee\<lparr>Context := map_option g (Context ee)\<rparr>"

definition ctx_Data :: "Entry \<Rightarrow> mapref" where
  "ctx_Data ee = (case Context ee of None \<Rightarrow> None | Some c \<Rightarrow> Context.Data c)"

text \<open>Lines 191 to 203: the entry that the rest of \<^verbatim>\<open>ToEntry\<close> updates.\<close>

definition new_entry :: "Formatter \<Rightarrow> logrus_Entry \<Rightarrow> heap \<Rightarrow> Entry \<times> heap" where
  "new_entry f e h =
     (let severity = severity_of (Level e);
          (data, h1) = replaceErrors (logrus_Entry.Data e) h
      in (\<lparr>LogName = [], Timestamp = [], Entry.HTTPRequest = None, Trace = [], SpanID = [],
           ServiceContext =
             Some \<lparr>ServiceContext.Service = Formatter.Service f,
                   ServiceContext.Version = Formatter.Version f\<rparr>,
           Entry.Message = logrus_Entry.Message e,
           Severity = severity,
           Context =
             Some \<lparr>Context.Data = data, Context.ReportLocation = None,
                   Context.HTTPRequest = None\<rparr>,
           SourceLocation = None\<rparr>,
          h1))"

text \<open>Lines 205 to 210.\<close>

definition extract_trace :: "logrus_Entry \<Rightarrow> Entry \<times> heap \<Rightarrow> Entry \<times> heap" where
  "extract_trace e s =
     (case s of (ee, h) \<Rightarrow>
        (case lookup_key h (logrus_Entry.Data e) KeyTrace of
           None \<Rightarrow> (ee, h)
         | Some val \<Rightarrow>
             (case as_string val of
                None \<Rightarrow> (ee, h)
              | Some str \<Rightarrow> (ee\<lparr>Trace := str\<rparr>, delete_key h (ctx_Data ee) KeyTrace))))"

text \<open>Lines 212 to 217.\<close>

definition extract_spanID :: "logrus_Entry \<Rightarrow> Entry \<times> heap \<Rightarrow> Entry \<times> heap" where
  "extract_spanID e s =
     (case s of (ee, h) \<Rightarrow>
        (case lookup_key h (logrus_Entry.Data e) KeySpanID of
           None \<Rightarrow> (ee, h)
         | Some val \<Rightarrow>
             (case as_string val of
                None \<Rightarrow> (ee, h)
              | Some str \<Rightarrow> (ee\<lparr>SpanID := str\<rparr>, delete_key h (ctx_Data ee) KeySpanID))))"

text \<open>Lines 219 to 225.\<close>

definition extract_httpRequest :: "logrus_Entry \<Rightarrow> Entry \<times> heap \<Rightarrow> Entry \<times> heap" where
  "extract_httpRequest e s =
     (case s of (ee, h) \<Rightarrow>
        (case lookup_key h (logrus_Entry.Data e) KeyHTTPRequest of
           None \<Rightarrow> (ee, h)
         | Some val \<Rightarrow>
             (case as_HTTPRequest val of
                None \<Rightarrow> (ee, h)
              | Some req \<Rightarrow>
                  (on_Context (\<lambda>c. c\<lparr>Context.HTTPRequest := req\<rparr>)
                     (ee\<lparr>Entry.HTTPRequest := req\<rparr>),
                   delete_key h (ctx_Data ee) KeyHTTPRequest))))"

text \<open>Lines 227 to 232; \<^verbatim>\<open>Sprintf("projects/%s/logs/%s", ...)\<close> on two strings.\<close>

definition extract_logID :: "Formatter \<Rightarrow> logrus_Entry \<Rightarrow> Entry \<times> heap \<Rightarrow> Entry \<times> heap" where
  "extract_logID f e s =
     (case s of (ee, h) \<Rightarrow>
        (case lookup_key h (logrus_Entry.Data e) KeyLogID of
           None \<Rightarrow> (ee, h)
         | Some val \<Rightarrow>
             if ProjectID f \<noteq> [] then
               (case as_string val of
                  None \<Rightarrow> (ee, h)
                | Some str \<Rightarrow>
                    (ee\<lparr>LogName :=
                          ''projects/'' @ ProjectID f @ ''/logs/'' @ QueryEscape str\<rparr>,
                     delete_key h (ctx_Data ee) KeyLogID))
             else (ee, h)))"

text \<open>Lines 234 to 236.\<close>

definition stamp :: "Env \<Rightarrow> Entry \<times> heap \<Rightarrow> Entry \<times> heap" where
  "stamp env s =
     (case s of (ee, h) \<Rightarrow> (if \<not> skipTimestamp env then ee\<lparr>Timestamp := now env\<rparr> else ee, h))"

text \<open>Lines 244 to 249: the error of \<^verbatim>\<open>WithError\<close> moves into the message.\<close>

definition append_error :: "logrus_Entry \<Rightarrow> Entry \<times> heap \<Rightarrow> Entry \<times> heap" where
  "append_error e s =
     (case s of (ee, h) \<Rightarrow>
        (case lookup_key h (ctx_Data ee) ErrorKey of
           Some err \<Rightarrow>
             (ee\<lparr>Entry.Message := logrus_Entry.Message e @ '': '' @ fmt_s err\<rparr>,
              delete_key h (ctx_Data ee) ErrorKey)
         | None \<Rightarrow> (ee\<lparr>Entry.Message := logrus_Entry.Message e\<rparr>, h)))"

text \<open>
  Lines 252 to 261: the report location, when \<^verbatim>\<open>errorOrigin\<close> gives no error. The
  error of \<^verbatim>\<open>ParseInt\<close> is dropped, and \<^verbatim>\<open>int(lineNumber)\<close> keeps the value
  (\<^verbatim>\<open>int\<close> has 64 bits on the platforms of the package).
\<close>

definition report_location :: "Env \<Rightarrow> Formatter \<Rightarrow> Entry \<times> heap \<Rightarrow> Entry \<times> heap" where
  "report_location env f s =
     (case s of (ee, h) \<Rightarrow>
        (case errorOrigin env f of
           (c, None) \<Rightarrow>
             (let lineNumber = fst (ParseInt (fmt_d c));
                  location = \<lparr>FilePath = fmt_plus_s c, LineNumber = lineNumber,
                              FunctionName = fmt_n c\<rparr>
              in (on_Context (\<lambda>c. c\<lparr>Context.ReportLocation := Some location\<rparr>)
                    (ee\<lparr>SourceLocation := Some location\<rparr>),
                  h))
         | (c, Some err) \<Rightarrow> (ee, h)))"

text \<open>The cases of the switch at line 238.\<close>

definition error_severities :: "severity set" where
  "error_severities = {severityError, severityCritical, severityAlert}"

definition ToEntry :: "Env \<Rightarrow> Formatter \<Rightarrow> logrus_Entry \<Rightarrow> heap \<Rightarrow> Entry \<times> heap" where
  "ToEntry env f e h =
     (let s = new_entry f e h;
          s = extract_trace e s;
          s = extract_spanID e s;
          s = extract_httpRequest e s;
          s = extract_logID f e s;
          s = stamp env s
      in if severity_of (Level e) \<in> error_severities
         then report_location env f (append_error e s)
         else s)"

text \<open>
  Readers of a result: \<^verbatim>\<open>ee.Context.ReportLocation\<close>, \<^verbatim>\<open>ee.Context.HTTPRequest\<close>
  and the map that \<^verbatim>\<open>ee.Context.Data\<close> refers to.
\<close>

definition ctx_ReportLocation :: "Entry \<Rightarrow> ReportLocation option" where
  "ctx_ReportLocation ee =
     (case Context ee of None \<Rightarrow> None | Some c \<Rightarrow> Context.ReportLocation c)"

definition ctx_HTTPRequest :: "Entry \<Rightarrow> HTTPRequest option" where
  "ctx_HTTPRequest ee =
     (case Context ee of None \<Rightarrow> None | Some c \<Rightarrow> Context.HTTPRequest c)"

definition context_data :: "Entry \<times> heap \<Rightarrow> Fields" where
  "context_data r = fields_at (snd r) (ctx_Data (fst r))"

subsection \<open>Format\<close>

text \<open>
  \<^verbatim>\<open>json.Marshal\<close> on the structs of the package. Every field has the option
  \<^verbatim>\<open>omitempty\<close>: a string is left out when it is empty, a number when it is 0, a map
  when it has no entry, a pointer when it is nil (and only then: a pointer to a struct
  whose fields are all empty is written as \<^verbatim>\<open>{}\<close>).
\<close>

definition omit_string :: "string \<Rightarrow> string \<Rightarrow> (string \<times> json) list" where
  "omit_string k s = (if s = [] then [] else [(k, JString s)])"

definition omit_int :: "string \<Rightarrow> int \<Rightarrow> (string \<times> json) list" where
  "omit_int k n = (if n = 0 then [] else [(k, JNumber n)])"

definition omit_pointer :: "string \<Rightarrow> ('a \<Rightarrow> json) \<Rightarrow> 'a option \<Rightarrow> (string \<times> json) list" where
  "omit_pointer k enc p = (case p of None \<Rightarrow> [] | Some x \<Rightarrow> [(k, enc x)])"

definition marshal_ServiceContext :: "ServiceContext \<Rightarrow> json" where
  "marshal_ServiceContext sc =
     JObject (omit_string ''service'' (ServiceContext.Service sc)
              @ omit_string ''version'' (ServiceContext.Version sc))"

definition marshal_ReportLocation :: "ReportLocation \<Rightarrow> json" where
  "marshal_ReportLocation l =
     JObject (omit_string ''filePath'' (FilePath l)
              @ omit_int ''lineNumber'' (LineNumber l)
              @ omit_string ''functionName'' (FunctionName l))"

definition marshal_HTTPRequest :: "HTTPRequest \<Rightarrow> json" where
  "marshal_HTTPRequest r =
     JObject (omit_string ''requestMethod'' (RequestMethod r)
              @ omit_string ''requestUrl'' (RequestURL r)
              @ omit_string ''requestSize'' (RequestSize r)
              @ omit_string ''status'' (Status r)
              @ omit_string ''responseSize'' (ResponseSize r)
              @ omit_string ''userAgent'' (UserAgent r)
              @ omit_string ''remoteIp'' (RemoteIP r)
              @ omit_string ''serverIp'' (ServerIP r)
              @ omit_string ''referer'' (Referer r)
              @ omit_string ''latency'' (Latency r)
              @ omit_string ''protocol'' (Protocol r))"

text \<open>
  A dynamic value. An error value keeps its text in fields that are not exported, so
  that \<^verbatim>\<open>encoding/json\<close> writes \<^verbatim>\<open>{}\<close> for it (the comment at line 179).
\<close>

fun marshal_val :: "val \<Rightarrow> json option" where
  "marshal_val (VString s) = Some (JString s)"
| "marshal_val (VError t) = Some (JObject [])"
| "marshal_val (VHTTPRequest None) = Some JNull"
| "marshal_val (VHTTPRequest (Some r)) = Some (marshal_HTTPRequest r)"
| "marshal_val (VOther shown j) = j"

fun marshal_Fields :: "Fields \<Rightarrow> (string \<times> json) list option" where
  "marshal_Fields [] = Some []"
| "marshal_Fields ((k, v) # kvs) =
     (case marshal_val v of
        None \<Rightarrow> None
      | Some j \<Rightarrow> map_option ((#) (k, j)) (marshal_Fields kvs))"

definition marshal_Context :: "heap \<Rightarrow> Context \<Rightarrow> error + json" where
  "marshal_Context h c =
     (case marshal_Fields (fields_at h (Context.Data c)) of
        None \<Rightarrow> Inl UnsupportedTypeError
      | Some ms \<Rightarrow>
          Inr (JObject ((if ms = [] then [] else [(''data'', JObject ms)])
                        @ omit_pointer ''reportLocation'' marshal_ReportLocation
                            (Context.ReportLocation c)
                        @ omit_pointer ''httpRequest'' marshal_HTTPRequest
                            (Context.HTTPRequest c))))"

definition marshal_Entry :: "heap \<Rightarrow> Entry \<Rightarrow> error + json" where
  "marshal_Entry h ee =
     (case (case Context ee of
              None \<Rightarrow> Inr []
            | Some c \<Rightarrow> (case marshal_Context h c of
                           Inl err \<Rightarrow> Inl err
                         | Inr j \<Rightarrow> Inr [(''context'', j)])) of
        Inl err \<Rightarrow> Inl err
      | Inr context_member \<Rightarrow>
          Inr (JObject (omit_string ''logName'' (LogName ee)
                        @ omit_string ''timestamp'' (Timestamp ee)
                        @ omit_pointer ''httpRequest'' marshal_HTTPRequest (Entry.HTTPRequest ee)
                        @ omit_string ''trace'' (Trace ee)
                        @ omit_string ''spanId'' (SpanID ee)
                        @ omit_pointer ''serviceContext'' marshal_ServiceContext
                            (ServiceContext ee)
                        @ omit_string ''message'' (Entry.Message ee)
                        @ omit_string ''severity'' (Severity ee)
                        @ context_member
                        @ omit_pointer ''sourceLocation'' marshal_ReportLocation
                            (SourceLocation ee))))"

text \<open>
  \<^verbatim>\<open>Format\<close> returns the error of \<^verbatim>\<open>json.Marshal\<close> or the document; the bytes it
  hands to logrus are the encoding of this document and a newline.
\<close>

definition Format :: "Env \<Rightarrow> Formatter \<Rightarrow> logrus_Entry \<Rightarrow> heap \<Rightarrow> (error + json) \<times> heap" where
  "Format env f e h = (case ToEntry env f e h of (ee, h') \<Rightarrow> (marshal_Entry h' ee, h'))"

subsection \<open>The shape of the store during a call\<close>

text \<open>
  Between the blocks of \<^verbatim>\<open>ToEntry\<close>, started in the store \<open>h\<close>: the context data is
  the one map allocated since, and the maps of \<open>h\<close> are as they were.
\<close>

definition fresh_ctx :: "heap \<Rightarrow> Entry \<times> heap \<Rightarrow> bool" where
  "fresh_ctx h s =
     (ctx_Data (fst s) = Some (length h) \<and> length (snd s) = Suc (length h)
      \<and> take (length h) (snd s) = h)"

section \<open>Properties\<close>

subsection \<open>The store\<close>

lemma length_delete_key [simp]: "length (delete_key h r k) = length h"
  by (simp add: delete_key_def split: option.splits)

lemma take_delete_key [simp]: "take n (delete_key h (Some n) k) = take n h"
  by (simp add: delete_key_def)

lemma fields_at_delete_key [simp]:
  "fields_at (delete_key h r k) r = AList.delete k (fields_at h r)"
  by (simp add: delete_key_def fields_at_def split: option.splits)

lemma fields_at_old:
  assumes "length h' = Suc (length h)" and "take (length h) h' = h" and "r \<noteq> Some (length h)"
  shows "fields_at h' r = fields_at h r"
proof (cases r)
  case None
  then show ?thesis by (simp add: fields_at_def)
next
  case (Some a)
  with assms(3) consider "a < length h" | "length h < a" by force
  then show ?thesis
  proof cases
    case 1
    have "h' ! a = take (length h) h' ! a" using 1 by simp
    with 1 Some assms show ?thesis by (simp add: fields_at_def)
  next
    case 2
    with Some assms show ?thesis by (simp add: fields_at_def)
  qed
qed

lemma lookup_key_valid:
  "lookup_key h r k = Some v \<Longrightarrow> r \<noteq> Some (length h)"
  by (auto simp: lookup_key_def fields_at_def)

lemma fresh_ctx_source:
  "fresh_ctx h s \<Longrightarrow> r \<noteq> Some (length h) \<Longrightarrow> lookup_key (snd s) r k = lookup_key h r k"
  by (simp add: fresh_ctx_def lookup_key_def fields_at_old)

subsection \<open>What each block of ToEntry leaves as it is\<close>

lemma ctx_on_Context [simp]:
  "ctx_Data (on_Context (\<lambda>c. c\<lparr>Context.HTTPRequest := x\<rparr>) ee) = ctx_Data ee"
  "ctx_Data (on_Context (\<lambda>c. c\<lparr>Context.ReportLocation := y\<rparr>) ee) = ctx_Data ee"
  "ctx_ReportLocation (on_Context (\<lambda>c. c\<lparr>Context.HTTPRequest := x\<rparr>) ee) = ctx_ReportLocation ee"
  "ctx_HTTPRequest (on_Context (\<lambda>c. c\<lparr>Context.ReportLocation := y\<rparr>) ee) = ctx_HTTPRequest ee"
  by (simp_all add: ctx_Data_def ctx_ReportLocation_def ctx_HTTPRequest_def on_Context_def
      split: option.splits)

lemma on_Context_fields [simp]:
  "LogName (on_Context g ee) = LogName ee"
  "Timestamp (on_Context g ee) = Timestamp ee"
  "Entry.HTTPRequest (on_Context g ee) = Entry.HTTPRequest ee"
  "Trace (on_Context g ee) = Trace ee"
  "SpanID (on_Context g ee) = SpanID ee"
  "ServiceContext (on_Context g ee) = ServiceContext ee"
  "Entry.Message (on_Context g ee) = Entry.Message ee"
  "Severity (on_Context g ee) = Severity ee"
  "SourceLocation (on_Context g ee) = SourceLocation ee"
  by (simp_all add: on_Context_def)

lemma ctx_update [simp]:
  "ctx_Data (ee\<lparr>Trace := a\<rparr>) = ctx_Data ee"
  "ctx_Data (ee\<lparr>SpanID := a\<rparr>) = ctx_Data ee"
  "ctx_Data (ee\<lparr>LogName := a\<rparr>) = ctx_Data ee"
  "ctx_Data (ee\<lparr>Timestamp := a\<rparr>) = ctx_Data ee"
  "ctx_Data (ee\<lparr>Entry.Message := a\<rparr>) = ctx_Data ee"
  "ctx_Data (ee\<lparr>Entry.HTTPRequest := b\<rparr>) = ctx_Data ee"
  "ctx_Data (ee\<lparr>SourceLocation := c\<rparr>) = ctx_Data ee"
  "ctx_ReportLocation (ee\<lparr>Trace := a\<rparr>) = ctx_ReportLocation ee"
  "ctx_ReportLocation (ee\<lparr>SpanID := a\<rparr>) = ctx_ReportLocation ee"
  "ctx_ReportLocation (ee\<lparr>LogName := a\<rparr>) = ctx_ReportLocation ee"
  "ctx_ReportLocation (ee\<lparr>Timestamp := a\<rparr>) = ctx_ReportLocation ee"
  "ctx_ReportLocation (ee\<lparr>Entry.Message := a\<rparr>) = ctx_ReportLocation ee"
  "ctx_ReportLocation (ee\<lparr>Entry.HTTPRequest := b\<rparr>) = ctx_ReportLocation ee"
  "ctx_ReportLocation (ee\<lparr>SourceLocation := c\<rparr>) = ctx_ReportLocation ee"
  "ctx_HTTPRequest (ee\<lparr>Trace := a\<rparr>) = ctx_HTTPRequest ee"
  "ctx_HTTPRequest (ee\<lparr>SpanID := a\<rparr>) = ctx_HTTPRequest ee"
  "ctx_HTTPRequest (ee\<lparr>LogName := a\<rparr>) = ctx_HTTPRequest ee"
  "ctx_HTTPRequest (ee\<lparr>Timestamp := a\<rparr>) = ctx_HTTPRequest ee"
  "ctx_HTTPRequest (ee\<lparr>Entry.Message := a\<rparr>) = ctx_HTTPRequest ee"
  "ctx_HTTPRequest (ee\<lparr>Entry.HTTPRequest := b\<rparr>) = ctx_HTTPRequest ee"
  "ctx_HTTPRequest (ee\<lparr>SourceLocation := c\<rparr>) = ctx_HTTPRequest ee"
  by (simp_all add: ctx_Data_def ctx_ReportLocation_def ctx_HTTPRequest_def)

lemma extract_trace_keeps [simp]:
  "LogName (fst (extract_trace e s)) = LogName (fst s)"
  "Timestamp (fst (extract_trace e s)) = Timestamp (fst s)"
  "Entry.HTTPRequest (fst (extract_trace e s)) = Entry.HTTPRequest (fst s)"
  "SpanID (fst (extract_trace e s)) = SpanID (fst s)"
  "ServiceContext (fst (extract_trace e s)) = ServiceContext (fst s)"
  "Entry.Message (fst (extract_trace e s)) = Entry.Message (fst s)"
  "Severity (fst (extract_trace e s)) = Severity (fst s)"
  "SourceLocation (fst (extract_trace e s)) = SourceLocation (fst s)"
  "ctx_Data (fst (extract_trace e s)) = ctx_Data (fst s)"
  "ctx_ReportLocation (fst (extract_trace e s)) = ctx_ReportLocation (fst s)"
  "ctx_HTTPRequest (fst (extract_trace e s)) = ctx_HTTPRequest (fst s)"
  by (simp_all add: extract_trace_def split: prod.splits option.splits)

lemma extract_spanID_keeps [simp]:
  "LogName (fst (extract_spanID e s)) = LogName (fst s)"
  "Timestamp (fst (extract_spanID e s)) = Timestamp (fst s)"
  "Entry.HTTPRequest (fst (extract_spanID e s)) = Entry.HTTPRequest (fst s)"
  "Trace (fst (extract_spanID e s)) = Trace (fst s)"
  "ServiceContext (fst (extract_spanID e s)) = ServiceContext (fst s)"
  "Entry.Message (fst (extract_spanID e s)) = Entry.Message (fst s)"
  "Severity (fst (extract_spanID e s)) = Severity (fst s)"
  "SourceLocation (fst (extract_spanID e s)) = SourceLocation (fst s)"
  "ctx_Data (fst (extract_spanID e s)) = ctx_Data (fst s)"
  "ctx_ReportLocation (fst (extract_spanID e s)) = ctx_ReportLocation (fst s)"
  "ctx_HTTPRequest (fst (extract_spanID e s)) = ctx_HTTPRequest (fst s)"
  by (simp_all add: extract_spanID_def split: prod.splits option.splits)

lemma extract_httpRequest_keeps [simp]:
  "LogName (fst (extract_httpRequest e s)) = LogName (fst s)"
  "Timestamp (fst (extract_httpRequest e s)) = Timestamp (fst s)"
  "Trace (fst (extract_httpRequest e s)) = Trace (fst s)"
  "SpanID (fst (extract_httpRequest e s)) = SpanID (fst s)"
  "ServiceContext (fst (extract_httpRequest e s)) = ServiceContext (fst s)"
  "Entry.Message (fst (extract_httpRequest e s)) = Entry.Message (fst s)"
  "Severity (fst (extract_httpRequest e s)) = Severity (fst s)"
  "SourceLocation (fst (extract_httpRequest e s)) = SourceLocation (fst s)"
  "ctx_Data (fst (extract_httpRequest e s)) = ctx_Data (fst s)"
  "ctx_ReportLocation (fst (extract_httpRequest e s)) = ctx_ReportLocation (fst s)"
  by (simp_all add: extract_httpRequest_def split: prod.splits option.splits)

lemma extract_logID_keeps [simp]:
  "Timestamp (fst (extract_logID f e s)) = Timestamp (fst s)"
  "Entry.HTTPRequest (fst (extract_logID f e s)) = Entry.HTTPRequest (fst s)"
  "Trace (fst (extract_logID f e s)) = Trace (fst s)"
  "SpanID (fst (extract_logID f e s)) = SpanID (fst s)"
  "ServiceContext (fst (extract_logID f e s)) = ServiceContext (fst s)"
  "Entry.Message (fst (extract_logID f e s)) = Entry.Message (fst s)"
  "Severity (fst (extract_logID f e s)) = Severity (fst s)"
  "SourceLocation (fst (extract_logID f e s)) = SourceLocation (fst s)"
  "ctx_Data (fst (extract_logID f e s)) = ctx_Data (fst s)"
  "ctx_ReportLocation (fst (extract_logID f e s)) = ctx_ReportLocation (fst s)"
  "ctx_HTTPRequest (fst (extract_logID f e s)) = ctx_HTTPRequest (fst s)"
  by (simp_all add: extract_logID_def split: prod.splits option.splits)

lemma stamp_keeps [simp]:
  "LogName (fst (stamp env s)) = LogName (fst s)"
  "Entry.HTTPRequest (fst (stamp env s)) = Entry.HTTPRequest (fst s)"
  "Trace (fst (stamp env s)) = Trace (fst s)"
  "SpanID (fst (stamp env s)) = SpanID (fst s)"
  "ServiceContext (fst (stamp env s)) = ServiceContext (fst s)"
  "Entry.Message (fst (stamp env s)) = Entry.Message (fst s)"
  "Severity (fst (stamp env s)) = Severity (fst s)"
  "SourceLocation (fst (stamp env s)) = SourceLocation (fst s)"
  "ctx_Data (fst (stamp env s)) = ctx_Data (fst s)"
  "ctx_ReportLocation (fst (stamp env s)) = ctx_ReportLocation (fst s)"
  "ctx_HTTPRequest (fst (stamp env s)) = ctx_HTTPRequest (fst s)"
  "snd (stamp env s) = snd s"
  by (simp_all add: stamp_def split: prod.splits)

lemma append_error_keeps [simp]:
  "LogName (fst (append_error e s)) = LogName (fst s)"
  "Timestamp (fst (append_error e s)) = Timestamp (fst s)"
  "Entry.HTTPRequest (fst (append_error e s)) = Entry.HTTPRequest (fst s)"
  "Trace (fst (append_error e s)) = Trace (fst s)"
  "SpanID (fst (append_error e s)) = SpanID (fst s)"
  "ServiceContext (fst (append_error e s)) = ServiceContext (fst s)"
  "Severity (fst (append_error e s)) = Severity (fst s)"
  "SourceLocation (fst (append_error e s)) = SourceLocation (fst s)"
  "ctx_Data (fst (append_error e s)) = ctx_Data (fst s)"
  "ctx_ReportLocation (fst (append_error e s)) = ctx_ReportLocation (fst s)"
  "ctx_HTTPRequest (fst (append_error e s)) = ctx_HTTPRequest (fst s)"
  by (simp_all add: append_error_def split: prod.splits option.splits)

lemma report_location_keeps [simp]:
  "LogName (fst (report_location env f s)) = LogName (fst s)"
  "Timestamp (fst (report_location env f s)) = Timestamp (fst s)"
  "Entry.HTTPRequest (fst (report_location env f s)) = Entry.HTTPRequest (fst s)"
  "Trace (fst (report_location env f s)) = Trace (fst s)"
  "SpanID (fst (report_location env f s)) = SpanID (fst s)"
  "ServiceContext (fst (report_location env f s)) = ServiceContext (fst s)"
  "Entry.Message (fst (report_location env f s)) = Entry.Message (fst s)"
  "Severity (fst (report_location env f s)) = Severity (fst s)"
  "ctx_Data (fst (report_location env f s)) = ctx_Data (fst s)"
  "ctx_HTTPRequest (fst (report_location env f s)) = ctx_HTTPRequest (fst s)"
  "snd (report_location env f s) = snd s"
  by (simp_all add: report_location_def Let_def split: prod.splits option.splits)

subsection \<open>The new map stays the only change of the store\<close>

lemma fresh_ctx_new_entry: "fresh_ctx h (new_entry f e h)"
  by (simp add: fresh_ctx_def new_entry_def replaceErrors_def make_map_def ctx_Data_def)

lemma fresh_ctx_extract_trace: "fresh_ctx h s \<Longrightarrow> fresh_ctx h (extract_trace e s)"
  by (cases s) (auto simp: fresh_ctx_def extract_trace_def split: option.splits)

lemma fresh_ctx_extract_spanID: "fresh_ctx h s \<Longrightarrow> fresh_ctx h (extract_spanID e s)"
  by (cases s) (auto simp: fresh_ctx_def extract_spanID_def split: option.splits)

lemma fresh_ctx_extract_httpRequest: "fresh_ctx h s \<Longrightarrow> fresh_ctx h (extract_httpRequest e s)"
  by (cases s) (auto simp: fresh_ctx_def extract_httpRequest_def split: option.splits)

lemma fresh_ctx_extract_logID: "fresh_ctx h s \<Longrightarrow> fresh_ctx h (extract_logID f e s)"
  by (cases s) (auto simp: fresh_ctx_def extract_logID_def split: option.splits)

lemma fresh_ctx_stamp: "fresh_ctx h s \<Longrightarrow> fresh_ctx h (stamp env s)"
  by (simp add: fresh_ctx_def)

lemma fresh_ctx_append_error: "fresh_ctx h s \<Longrightarrow> fresh_ctx h (append_error e s)"
  by (cases s) (auto simp: fresh_ctx_def append_error_def split: option.splits)

lemma fresh_ctx_report_location: "fresh_ctx h s \<Longrightarrow> fresh_ctx h (report_location env f s)"
  by (simp add: fresh_ctx_def)

lemmas fresh_ctx_blocks =
  fresh_ctx_new_entry fresh_ctx_extract_trace fresh_ctx_extract_spanID
  fresh_ctx_extract_httpRequest fresh_ctx_extract_logID fresh_ctx_stamp
  fresh_ctx_append_error fresh_ctx_report_location

lemma fresh_ctx_ToEntry: "fresh_ctx h (ToEntry env f e h)"
  by (simp add: ToEntry_def Let_def fresh_ctx_blocks)

subsection \<open>What each block changes\<close>

lemma new_entry_fields [simp]:
  "LogName (fst (new_entry f e h)) = []"
  "Timestamp (fst (new_entry f e h)) = []"
  "Entry.HTTPRequest (fst (new_entry f e h)) = None"
  "Trace (fst (new_entry f e h)) = []"
  "SpanID (fst (new_entry f e h)) = []"
  "ServiceContext (fst (new_entry f e h)) =
     Some \<lparr>ServiceContext.Service = Formatter.Service f,
           ServiceContext.Version = Formatter.Version f\<rparr>"
  "Entry.Message (fst (new_entry f e h)) = logrus_Entry.Message e"
  "Severity (fst (new_entry f e h)) = severity_of (Level e)"
  "SourceLocation (fst (new_entry f e h)) = None"
  "ctx_ReportLocation (fst (new_entry f e h)) = None"
  "ctx_HTTPRequest (fst (new_entry f e h)) = None"
  by (simp_all add: new_entry_def Let_def ctx_ReportLocation_def ctx_HTTPRequest_def
      split: prod.splits)

lemma context_data_new_entry:
  "context_data (new_entry f e h) =
     map (\<lambda>(k, v). (k, replace_error v)) (fields_at h (logrus_Entry.Data e))"
  by (simp add: context_data_def new_entry_def replaceErrors_def make_map_def ctx_Data_def
      fields_at_def)

lemma map_of_context_data_new_entry:
  "map_of (context_data (new_entry f e h)) k =
     map_option replace_error (lookup_key h (logrus_Entry.Data e) k)"
  by (simp add: context_data_new_entry lookup_key_def map_of_map)

lemma Trace_extract_trace:
  "Trace (fst (extract_trace e s)) =
     (case Option.bind (lookup_key (snd s) (logrus_Entry.Data e) KeyTrace) as_string of
        None \<Rightarrow> Trace (fst s) | Some str \<Rightarrow> str)"
  by (simp add: extract_trace_def split: prod.splits option.splits)

lemma SpanID_extract_spanID:
  "SpanID (fst (extract_spanID e s)) =
     (case Option.bind (lookup_key (snd s) (logrus_Entry.Data e) KeySpanID) as_string of
        None \<Rightarrow> SpanID (fst s) | Some str \<Rightarrow> str)"
  by (simp add: extract_spanID_def split: prod.splits option.splits)

lemma HTTPRequest_extract_httpRequest:
  "Entry.HTTPRequest (fst (extract_httpRequest e s)) =
     (case Option.bind (lookup_key (snd s) (logrus_Entry.Data e) KeyHTTPRequest) as_HTTPRequest of
        None \<Rightarrow> Entry.HTTPRequest (fst s) | Some req \<Rightarrow> req)"
  by (simp add: extract_httpRequest_def split: prod.splits option.splits)

lemma ctx_HTTPRequest_extract_httpRequest:
  "ctx_Data (fst s) \<noteq> None \<Longrightarrow>
   ctx_HTTPRequest (fst (extract_httpRequest e s)) =
     (case Option.bind (lookup_key (snd s) (logrus_Entry.Data e) KeyHTTPRequest) as_HTTPRequest of
        None \<Rightarrow> ctx_HTTPRequest (fst s) | Some req \<Rightarrow> req)"
  by (auto simp: extract_httpRequest_def ctx_HTTPRequest_def ctx_Data_def on_Context_def
      split: prod.splits option.splits)

lemma LogName_extract_logID:
  "LogName (fst (extract_logID f e s)) =
     (case Option.bind (lookup_key (snd s) (logrus_Entry.Data e) KeyLogID) as_string of
        None \<Rightarrow> LogName (fst s)
      | Some str \<Rightarrow>
          if ProjectID f \<noteq> [] then ''projects/'' @ ProjectID f @ ''/logs/'' @ QueryEscape str
          else LogName (fst s))"
  by (simp add: extract_logID_def split: prod.splits option.splits)

lemma Timestamp_stamp:
  "Timestamp (fst (stamp env s)) = (if skipTimestamp env then Timestamp (fst s) else now env)"
  by (simp add: stamp_def split: prod.splits)

lemma Message_append_error:
  "Entry.Message (fst (append_error e s)) =
     (case map_of (context_data s) ErrorKey of
        None \<Rightarrow> logrus_Entry.Message e
      | Some err \<Rightarrow> logrus_Entry.Message e @ '': '' @ fmt_s err)"
  by (simp add: append_error_def context_data_def lookup_key_def split: prod.splits option.splits)

text \<open>The context data, as a finite map.\<close>

lemma context_data_extract_trace:
  "map_of (context_data (extract_trace e s)) =
     (case Option.bind (lookup_key (snd s) (logrus_Entry.Data e) KeyTrace) as_string of
        None \<Rightarrow> map_of (context_data s)
      | Some str \<Rightarrow> (map_of (context_data s))(KeyTrace := None))"
  by (cases s)
     (simp add: extract_trace_def context_data_def AList.delete_conv' split: option.splits)

lemma context_data_extract_spanID:
  "map_of (context_data (extract_spanID e s)) =
     (case Option.bind (lookup_key (snd s) (logrus_Entry.Data e) KeySpanID) as_string of
        None \<Rightarrow> map_of (context_data s)
      | Some str \<Rightarrow> (map_of (context_data s))(KeySpanID := None))"
  by (cases s)
     (simp add: extract_spanID_def context_data_def AList.delete_conv' split: option.splits)

lemma context_data_extract_httpRequest:
  "map_of (context_data (extract_httpRequest e s)) =
     (case Option.bind (lookup_key (snd s) (logrus_Entry.Data e) KeyHTTPRequest) as_HTTPRequest of
        None \<Rightarrow> map_of (context_data s)
      | Some req \<Rightarrow> (map_of (context_data s))(KeyHTTPRequest := None))"
  by (cases s)
     (simp add: extract_httpRequest_def context_data_def AList.delete_conv' split: option.splits)

lemma context_data_extract_logID:
  "map_of (context_data (extract_logID f e s)) =
     (case Option.bind (lookup_key (snd s) (logrus_Entry.Data e) KeyLogID) as_string of
        None \<Rightarrow> map_of (context_data s)
      | Some str \<Rightarrow>
          if ProjectID f \<noteq> [] then (map_of (context_data s))(KeyLogID := None)
          else map_of (context_data s))"
  by (cases s)
     (simp add: extract_logID_def context_data_def AList.delete_conv' split: option.splits)

lemma context_data_stamp [simp]: "context_data (stamp env s) = context_data s"
  by (simp add: context_data_def)

lemma context_data_report_location [simp]:
  "context_data (report_location env f s) = context_data s"
  by (simp add: context_data_def)

lemma context_data_append_error:
  "map_of (context_data (append_error e s)) = (map_of (context_data s))(ErrorKey := None)"
  by (cases s)
     (auto simp: append_error_def context_data_def lookup_key_def AList.delete_conv'
      split: option.splits)

lemmas severity_defs =
  severityDebug_def severityInfo_def severityWarning_def
  severityError_def severityCritical_def severityAlert_def

lemmas Level_defs =
  PanicLevel_def FatalLevel_def ErrorLevel_def WarnLevel_def InfoLevel_def
  DebugLevel_def TraceLevel_def

lemmas Key_defs = KeyTrace_def KeySpanID_def KeyHTTPRequest_def KeyLogID_def ErrorKey_def

subsection \<open>ToEntry reads the fields of the caller\<close>

lemma source_unchanged:
  assumes "logrus_Entry.Data e \<noteq> Some (length h)"
  shows "lookup_key (snd (new_entry f e h)) (logrus_Entry.Data e) k
           = lookup_key h (logrus_Entry.Data e) k"
    and "lookup_key (snd (extract_trace e (new_entry f e h))) (logrus_Entry.Data e) k
           = lookup_key h (logrus_Entry.Data e) k"
    and "lookup_key (snd (extract_spanID e (extract_trace e (new_entry f e h))))
           (logrus_Entry.Data e) k
           = lookup_key h (logrus_Entry.Data e) k"
    and "lookup_key
           (snd (extract_httpRequest e (extract_spanID e (extract_trace e (new_entry f e h)))))
           (logrus_Entry.Data e) k
           = lookup_key h (logrus_Entry.Data e) k"
  using assms by (simp_all add: fresh_ctx_source [where h = h] fresh_ctx_blocks)

lemma ToEntry_Trace:
  assumes "logrus_Entry.Data e \<noteq> Some (length h)"
  shows "Trace (fst (ToEntry env f e h)) =
           (case Option.bind (lookup_key h (logrus_Entry.Data e) KeyTrace) as_string of
              None \<Rightarrow> [] | Some str \<Rightarrow> str)"
  by (simp add: ToEntry_def Let_def Trace_extract_trace source_unchanged [OF assms]
      cong: option.case_cong)

lemma ToEntry_SpanID:
  assumes "logrus_Entry.Data e \<noteq> Some (length h)"
  shows "SpanID (fst (ToEntry env f e h)) =
           (case Option.bind (lookup_key h (logrus_Entry.Data e) KeySpanID) as_string of
              None \<Rightarrow> [] | Some str \<Rightarrow> str)"
  by (simp add: ToEntry_def Let_def SpanID_extract_spanID source_unchanged [OF assms]
      cong: option.case_cong)

lemma ToEntry_HTTPRequest:
  assumes "logrus_Entry.Data e \<noteq> Some (length h)"
  shows "Entry.HTTPRequest (fst (ToEntry env f e h)) =
           (case Option.bind (lookup_key h (logrus_Entry.Data e) KeyHTTPRequest) as_HTTPRequest of
              None \<Rightarrow> None | Some req \<Rightarrow> req)"
    and "ctx_HTTPRequest (fst (ToEntry env f e h)) =
           (case Option.bind (lookup_key h (logrus_Entry.Data e) KeyHTTPRequest) as_HTTPRequest of
              None \<Rightarrow> None | Some req \<Rightarrow> req)"
proof -
  have "fresh_ctx h (extract_spanID e (extract_trace e (new_entry f e h)))"
    by (simp add: fresh_ctx_blocks)
  then have c: "ctx_Data (fst (extract_spanID e (extract_trace e (new_entry f e h)))) \<noteq> None"
    unfolding fresh_ctx_def by simp
  show "Entry.HTTPRequest (fst (ToEntry env f e h)) =
           (case Option.bind (lookup_key h (logrus_Entry.Data e) KeyHTTPRequest) as_HTTPRequest of
              None \<Rightarrow> None | Some req \<Rightarrow> req)"
    by (simp add: ToEntry_def Let_def HTTPRequest_extract_httpRequest
        source_unchanged [OF assms] cong: option.case_cong)
  show "ctx_HTTPRequest (fst (ToEntry env f e h)) =
           (case Option.bind (lookup_key h (logrus_Entry.Data e) KeyHTTPRequest) as_HTTPRequest of
              None \<Rightarrow> None | Some req \<Rightarrow> req)"
    using c
    by (simp add: ToEntry_def Let_def ctx_HTTPRequest_extract_httpRequest
        source_unchanged [OF assms] cong: option.case_cong)
qed

lemma ToEntry_LogName:
  assumes "logrus_Entry.Data e \<noteq> Some (length h)"
  shows "LogName (fst (ToEntry env f e h)) =
           (case Option.bind (lookup_key h (logrus_Entry.Data e) KeyLogID) as_string of
              None \<Rightarrow> []
            | Some str \<Rightarrow>
                if ProjectID f \<noteq> [] then ''projects/'' @ ProjectID f @ ''/logs/'' @ QueryEscape str
                else [])"
  by (simp add: ToEntry_def Let_def LogName_extract_logID source_unchanged [OF assms]
      cong: option.case_cong if_cong)

lemma ToEntry_Timestamp:
  "Timestamp (fst (ToEntry env f e h)) = (if skipTimestamp env then [] else now env)"
  by (simp add: ToEntry_def Let_def Timestamp_stamp)

lemma ToEntry_ServiceContext:
  "ServiceContext (fst (ToEntry env f e h)) =
     Some \<lparr>ServiceContext.Service = Formatter.Service f,
           ServiceContext.Version = Formatter.Version f\<rparr>"
  by (simp add: ToEntry_def Let_def)

lemma ToEntry_Severity: "Severity (fst (ToEntry env f e h)) = severity_of (Level e)"
  by (simp add: ToEntry_def Let_def)

lemma ToEntry_Context: "\<exists>c. Context (fst (ToEntry env f e h)) = Some c"
proof -
  have "ctx_Data (fst (ToEntry env f e h)) = Some (length h)"
    using fresh_ctx_ToEntry [of h env f e] by (simp add: fresh_ctx_def)
  then show ?thesis by (auto simp: ctx_Data_def split: option.splits)
qed

lemma ToEntry_context_data:
  assumes "logrus_Entry.Data e \<noteq> Some (length h)"
  shows "map_of (context_data (ToEntry env f e h)) k =
     (if (k = KeyTrace \<and> Option.bind (lookup_key h (logrus_Entry.Data e) KeyTrace) as_string \<noteq> None)
       \<or> (k = KeySpanID
            \<and> Option.bind (lookup_key h (logrus_Entry.Data e) KeySpanID) as_string \<noteq> None)
       \<or> (k = KeyHTTPRequest
            \<and> Option.bind (lookup_key h (logrus_Entry.Data e) KeyHTTPRequest) as_HTTPRequest
                \<noteq> None)
       \<or> (k = KeyLogID \<and> ProjectID f \<noteq> []
            \<and> Option.bind (lookup_key h (logrus_Entry.Data e) KeyLogID) as_string \<noteq> None)
       \<or> (k = ErrorKey \<and> severity_of (Level e) \<in> error_severities)
      then None
      else map_option replace_error (lookup_key h (logrus_Entry.Data e) k))"
proof -
  let ?s = "extract_logID f e (extract_httpRequest e
              (extract_spanID e (extract_trace e (new_entry f e h))))"
  have before: "map_of (context_data ?s) k' =
     (if (k' = KeyTrace \<and> Option.bind (lookup_key h (logrus_Entry.Data e) KeyTrace) as_string \<noteq> None)
       \<or> (k' = KeySpanID
            \<and> Option.bind (lookup_key h (logrus_Entry.Data e) KeySpanID) as_string \<noteq> None)
       \<or> (k' = KeyHTTPRequest
            \<and> Option.bind (lookup_key h (logrus_Entry.Data e) KeyHTTPRequest) as_HTTPRequest
                \<noteq> None)
       \<or> (k' = KeyLogID \<and> ProjectID f \<noteq> []
            \<and> Option.bind (lookup_key h (logrus_Entry.Data e) KeyLogID) as_string \<noteq> None)
      then None
      else map_option replace_error (lookup_key h (logrus_Entry.Data e) k'))" for k'
    by (simp add: context_data_extract_trace context_data_extract_spanID
        context_data_extract_httpRequest context_data_extract_logID
        map_of_context_data_new_entry source_unchanged [OF assms] Key_defs
        split: option.splits)
  have keys: "ErrorKey \<noteq> KeyTrace" "ErrorKey \<noteq> KeySpanID" "ErrorKey \<noteq> KeyHTTPRequest"
    "ErrorKey \<noteq> KeyLogID"
    by (simp_all add: Key_defs)
  show ?thesis
  proof (cases "severity_of (Level e) \<in> error_severities")
    case True
    then have "map_of (context_data (ToEntry env f e h)) k
                 = ((map_of (context_data ?s))(ErrorKey := None)) k"
      by (simp add: ToEntry_def Let_def context_data_append_error)
    also have "\<dots> = (if k = ErrorKey then None else map_of (context_data ?s) k)"
      by simp
    finally show ?thesis
      using True keys by (cases "k = ErrorKey") (simp_all only: before if_True if_False simp_thms)
  next
    case False
    then have "map_of (context_data (ToEntry env f e h)) k = map_of (context_data ?s) k"
      by (simp add: ToEntry_def Let_def)
    then show ?thesis
      using False by (simp only: before simp_thms)
  qed
qed

lemma ToEntry_Message_below:
  "severity_of (Level e) \<notin> error_severities \<Longrightarrow>
   Entry.Message (fst (ToEntry env f e h)) = logrus_Entry.Message e"
  by (simp add: ToEntry_def Let_def)

lemma ToEntry_location_below:
  assumes "severity_of (Level e) \<notin> error_severities"
  shows "SourceLocation (fst (ToEntry env f e h)) = None"
    and "ctx_ReportLocation (fst (ToEntry env f e h)) = None"
  using assms by (simp_all add: ToEntry_def Let_def)

subsection \<open>Marshalling\<close>

lemma map_of_omit_string:
  "map_of (omit_string k s) k' = (if k' = k \<and> s \<noteq> [] then Some (JString s) else None)"
  by (simp add: omit_string_def)

lemma map_of_omit_int:
  "map_of (omit_int k n) k' = (if k' = k \<and> n \<noteq> 0 then Some (JNumber n) else None)"
  by (simp add: omit_int_def)

lemma map_of_omit_pointer:
  "map_of (omit_pointer k enc p) k' = (if k' = k then map_option enc p else None)"
  by (simp add: omit_pointer_def split: option.splits)

lemmas map_of_omit = map_of_omit_string map_of_omit_int map_of_omit_pointer

lemma marshal_Context_members:
  assumes "marshal_Context h c = Inr cj"
  shows "is_object cj"
    and "member ''reportLocation'' cj = map_option marshal_ReportLocation (Context.ReportLocation c)"
    and "member ''httpRequest'' cj = map_option marshal_HTTPRequest (Context.HTTPRequest c)"
    and "fields_at h (Context.Data c) = [] \<Longrightarrow> member ''data'' cj = None"
  using assms
  by (auto simp: marshal_Context_def map_of_omit map_add_def split: option.splits)

lemma marshal_Entry_members:
  assumes "marshal_Entry h ee = Inr j"
  shows "is_object j"
    and "member ''logName'' j = (if LogName ee = [] then None else Some (JString (LogName ee)))"
    and "member ''timestamp'' j
           = (if Timestamp ee = [] then None else Some (JString (Timestamp ee)))"
    and "member ''httpRequest'' j = map_option marshal_HTTPRequest (Entry.HTTPRequest ee)"
    and "member ''trace'' j = (if Trace ee = [] then None else Some (JString (Trace ee)))"
    and "member ''spanId'' j = (if SpanID ee = [] then None else Some (JString (SpanID ee)))"
    and "member ''serviceContext'' j = map_option marshal_ServiceContext (ServiceContext ee)"
    and "member ''message'' j
           = (if Entry.Message ee = [] then None else Some (JString (Entry.Message ee)))"
    and "member ''severity'' j
           = (if Severity ee = [] then None else Some (JString (Severity ee)))"
    and "member ''sourceLocation'' j = map_option marshal_ReportLocation (SourceLocation ee)"
  using assms
  by (auto simp: marshal_Entry_def map_of_omit map_add_def split: option.splits sum.splits)

lemma marshal_Entry_context:
  assumes "marshal_Entry h ee = Inr j" and "Context ee = Some c"
  shows "\<exists>cj. marshal_Context h c = Inr cj \<and> member ''context'' j = Some cj"
  using assms
  by (auto simp: marshal_Entry_def map_of_omit map_add_def split: option.splits sum.splits)

lemma ToEntry_Message_error:
  assumes "logrus_Entry.Data e \<noteq> Some (length h)"
    and "severity_of (Level e) \<in> error_severities"
  shows "Entry.Message (fst (ToEntry env f e h)) =
           (case lookup_key h (logrus_Entry.Data e) ErrorKey of
              None \<Rightarrow> logrus_Entry.Message e
            | Some v \<Rightarrow> logrus_Entry.Message e @ '': '' @ fmt_s (replace_error v))"
proof -
  let ?s = "extract_logID f e (extract_httpRequest e
              (extract_spanID e (extract_trace e (new_entry f e h))))"
  have "map_of (context_data ?s) ErrorKey
          = map_option replace_error (lookup_key h (logrus_Entry.Data e) ErrorKey)"
    by (simp add: context_data_extract_trace context_data_extract_spanID
        context_data_extract_httpRequest context_data_extract_logID
        map_of_context_data_new_entry source_unchanged [OF assms(1)] Key_defs
        split: option.splits)
  then show ?thesis
    using assms(2)
    by (simp add: ToEntry_def Let_def Message_append_error split: option.splits)
qed

lemma QueryEscape_unreserved:
  "\<forall>c \<in> set s. \<not> shouldEscape c \<Longrightarrow> QueryEscape s = s"
  by (induction s) (simp_all add: QueryEscape_def escape_byte_def)

lemma below_error: 
  "sev \<in> {severityDebug, severityInfo, severityWarning, []} \<Longrightarrow> sev \<notin> error_severities"
  by (auto simp: error_severities_def severity_defs)

lemma snd_Format: "snd (Format env f e h) = snd (ToEntry env f e h)"
  by (simp add: Format_def split: prod.splits)

lemma fst_Format:
  "fst (Format env f e h) = marshal_Entry (snd (ToEntry env f e h)) (fst (ToEntry env f e h))"
  by (simp add: Format_def split: prod.splits)

lemmas eval_defs =
  Format_def ToEntry_def Let_def new_entry_def replaceErrors_def make_map_def
  extract_trace_def extract_spanID_def extract_httpRequest_def extract_logID_def stamp_def
  append_error_def report_location_def errorOrigin_def
  lookup_key_def fields_at_def delete_key_def ctx_Data_def ctx_ReportLocation_def
  ctx_HTTPRequest_def context_data_def on_Context_def replace_error_def
  severity_of_def levelsToSeverity_def error_severities_def
  NewFormatter_def WithService_def WithVersion_def WithProjectID_def WithStackSkip_def
  marshal_Entry_def marshal_Context_def marshal_ServiceContext_def
  marshal_ReportLocation_def marshal_HTTPRequest_def
  omit_string_def omit_int_def omit_pointer_def
  QueryEscape_def escape_byte_def shouldEscape_def
  Level_defs severity_defs Key_defs

subsection \<open>Records without fields\<close>

lemma set_delete_subset: "set (AList.delete k xs) \<subseteq> set xs"
  by (auto simp: AList.delete_eq)

lemma context_data_shrinks:
  "set (context_data (extract_trace e s)) \<subseteq> set (context_data s)"
  "set (context_data (extract_spanID e s)) \<subseteq> set (context_data s)"
  "set (context_data (extract_httpRequest e s)) \<subseteq> set (context_data s)"
  "set (context_data (extract_logID f e s)) \<subseteq> set (context_data s)"
  "set (context_data (append_error e s)) \<subseteq> set (context_data s)"
  by (cases s;
      simp add: extract_trace_def extract_spanID_def extract_httpRequest_def extract_logID_def
        append_error_def context_data_def set_delete_subset split: option.splits)+

lemma context_data_ToEntry_subset:
  "set (context_data (ToEntry env f e h))
     \<subseteq> set (map (\<lambda>(k, v). (k, replace_error v)) (fields_at h (logrus_Entry.Data e)))"
proof -
  let ?s1 = "extract_trace e (new_entry f e h)"
  let ?s2 = "extract_spanID e ?s1"
  let ?s3 = "extract_httpRequest e ?s2"
  let ?s4 = "extract_logID f e ?s3"
  have "set (context_data ?s4) \<subseteq> set (context_data (new_entry f e h))"
    using context_data_shrinks(1) [of e "new_entry f e h"] context_data_shrinks(2) [of e ?s1]
      context_data_shrinks(3) [of e ?s2] context_data_shrinks(4) [of f e ?s3]
    by blast
  moreover have "set (context_data (append_error e (stamp env ?s4))) \<subseteq> set (context_data ?s4)"
    using context_data_shrinks(5) [of e "stamp env ?s4"] by simp
  ultimately show ?thesis
    by (auto simp: ToEntry_def Let_def context_data_new_entry)
qed

lemma no_fields_no_lookup:
  assumes "fresh_ctx h s" and "fields_at h r = []" and "context_data s = []"
  shows "lookup_key (snd s) r k = None"
proof (cases "r = Some (length h)")
  case True
  with assms(1,3) have "fields_at (snd s) r = []"
    by (simp add: fresh_ctx_def context_data_def)
  then show ?thesis by (simp add: lookup_key_def)
next
  case False
  have "lookup_key (snd s) r k = lookup_key h r k"
    using assms(1) False by (rule fresh_ctx_source)
  with assms(2) show ?thesis by (simp add: lookup_key_def)
qed

lemma no_fields_no_request:
  assumes "fields_at h (logrus_Entry.Data e) = []"
  shows "ctx_HTTPRequest (fst (ToEntry env f e h)) = None"
proof -
  let ?s2 = "extract_spanID e (extract_trace e (new_entry f e h))"
  have fresh: "fresh_ctx h ?s2"
    by (simp add: fresh_ctx_blocks)
  have "set (context_data ?s2) \<subseteq> set (context_data (new_entry f e h))"
    using context_data_shrinks(1) [of e "new_entry f e h"]
      context_data_shrinks(2) [of e "extract_trace e (new_entry f e h)"]
    by blast
  then have empty: "context_data ?s2 = []"
    using assms by (simp add: context_data_new_entry)
  have none: "lookup_key (snd ?s2) (logrus_Entry.Data e) KeyHTTPRequest = None"
    using fresh assms empty by (rule no_fields_no_lookup)
  have some: "ctx_Data (fst ?s2) \<noteq> None"
    using fresh unfolding fresh_ctx_def by simp
  have "ctx_HTTPRequest (fst (extract_httpRequest e ?s2)) = None"
    unfolding ctx_HTTPRequest_extract_httpRequest [OF some] none by simp
  then show ?thesis
    by (simp add: ToEntry_def Let_def)
qed

lemma marshal_Fields_None:
  "marshal_Fields kvs = None \<longleftrightarrow> (\<exists>(k, v) \<in> set kvs. marshal_val v = None)"
  by (induction kvs) (auto split: option.splits)

text \<open>Format fails only on a field value that has no JSON encoding.\<close>

lemma Format_succeeds:
  assumes "\<forall>(k, v) \<in> set (fields_at h (logrus_Entry.Data e)). marshal_val (replace_error v) \<noteq> None"
  shows "\<exists>j. fst (Format env f e h) = Inr j"
proof -
  obtain c where c: "Context (fst (ToEntry env f e h)) = Some c"
    using ToEntry_Context by blast
  then have d: "fields_at (snd (ToEntry env f e h)) (Context.Data c)
                  = context_data (ToEntry env f e h)"
    by (simp add: context_data_def ctx_Data_def)
  have "marshal_Fields (context_data (ToEntry env f e h)) \<noteq> None"
  proof
    assume "marshal_Fields (context_data (ToEntry env f e h)) = None"
    then obtain k v where kv: "(k, v) \<in> set (context_data (ToEntry env f e h))"
      and none: "marshal_val v = None"
      by (auto simp: marshal_Fields_None)
    from kv context_data_ToEntry_subset [of env f e h]
    obtain v0 where "(k, v0) \<in> set (fields_at h (logrus_Entry.Data e))" "v = replace_error v0"
      by auto
    with assms none show False by auto
  qed
  then show ?thesis
    using c d
    by (auto simp: fst_Format marshal_Entry_def marshal_Context_def split: option.splits)
qed

subsection \<open>errorOrigin\<close>

lemma SplitN_2:
  "SplitN s sep 2 =
     (case Index s sep of None \<Rightarrow> [s] | Some m \<Rightarrow> [take m s, drop (m + length sep) s])"
  by (simp add: numeral_2_eq_2 split: option.splits)

text \<open>What the code computes: the rest after the first marker, or the whole path.\<close>

lemma strip_vendor_first:
  "strip_vendor p =
     (case Index p ''/vendor/'' of
        None \<Rightarrow> p
      | Some m \<Rightarrow> drop (m + length ''/vendor/'') p)"
proof (cases "Index p ''/vendor/''")
  case None
  then show ?thesis by (simp add: strip_vendor_def SplitN_2)
next
  case (Some m)
  then show ?thesis by (simp add: strip_vendor_def SplitN_2)
qed

lemma errorOrigin_from_no_error: "snd (errorOrigin_from f st i) = None"
proof (induction f st i rule: errorOrigin_from.induct)
  case (1 f st i)
  show ?case
  proof (cases "MarshalText (Caller st i)")
    case (Inl err)
    then show ?thesis by (simp add: errorOrigin_from.simps [of f st i])
  next
    case (Inr t)
    then show ?thesis
      using "1.IH" [OF refl Inr]
      by (cases "skip f (strip_vendor (fmt_plus_k (Caller st i)))")
         (simp_all add: errorOrigin_from.simps [of f st i])
  qed
qed

text \<open>The test of line 252 never fails: an error severity always gets a location.\<close>

lemma errorOrigin_no_error: "\<exists>c. errorOrigin env f = (c, None)"
  using errorOrigin_from_no_error [of f "callers env" 3]
  by (cases "errorOrigin env f") (simp add: errorOrigin_def)

lemma report_location_sets:
  assumes "Context (fst s) = Some cx"
  shows "SourceLocation (fst (report_location env f s)) \<noteq> None"
    and "ctx_ReportLocation (fst (report_location env f s))
           = SourceLocation (fst (report_location env f s))"
proof -
  obtain c where c: "errorOrigin env f = (c, None)"
    using errorOrigin_no_error by blast
  obtain ee h where s: "s = (ee, h)"
    by (cases s)
  show "SourceLocation (fst (report_location env f s)) \<noteq> None"
    by (simp add: s report_location_def c Let_def)
  show "ctx_ReportLocation (fst (report_location env f s))
           = SourceLocation (fst (report_location env f s))"
    using assms
    by (simp add: s report_location_def c Let_def ctx_ReportLocation_def on_Context_def)
qed

lemma error_severity_location:
  assumes "severity_of (Level e) \<in> error_severities"
  shows "SourceLocation (fst (ToEntry env f e h)) \<noteq> None"
    and "ctx_ReportLocation (fst (ToEntry env f e h)) = SourceLocation (fst (ToEntry env f e h))"
proof -
  let ?s = "append_error e (stamp env (extract_logID f e (extract_httpRequest e
              (extract_spanID e (extract_trace e (new_entry f e h))))))"
  have "fresh_ctx h ?s"
    by (simp add: fresh_ctx_blocks)
  then obtain cx where cx: "Context (fst ?s) = Some cx"
    by (auto simp: fresh_ctx_def ctx_Data_def split: option.splits)
  have eq: "ToEntry env f e h = report_location env f ?s"
    using assms by (simp add: ToEntry_def Let_def)
  show "SourceLocation (fst (ToEntry env f e h)) \<noteq> None"
    unfolding eq using cx by (rule report_location_sets)
  show "ctx_ReportLocation (fst (ToEntry env f e h)) = SourceLocation (fst (ToEntry env f e h))"
    unfolding eq using cx by (rule report_location_sets)
qed

text \<open>
  The log name that line 229 gives for the logID my-id under the project my-project-id;
  the message of the record has no part in it.
\<close>

lemma LogName_any_message:
  assumes "ProjectID f = ''my-project-id''"
    and "lookup_key h (logrus_Entry.Data e) KeyLogID = Some (VString ''my-id'')"
  shows "LogName (fst (ToEntry env f e h)) = ''projects/my-project-id/logs/my-id''
       \<and> LogName (fst (ToEntry env f (e\<lparr>logrus_Entry.Message := msg\<rparr>) h))
           = LogName (fst (ToEntry env f e h))"
proof -
  have ok: "logrus_Entry.Data e \<noteq> Some (length h)"
    using assms(2) by (rule lookup_key_valid)
  then have ok': "logrus_Entry.Data (e\<lparr>logrus_Entry.Message := msg\<rparr>) \<noteq> Some (length h)"
    by simp
  have esc: "QueryEscape ''my-id'' = ''my-id''"
    by (simp add: QueryEscape_def escape_byte_def shouldEscape_def)
  show ?thesis
    using assms by (simp add: ToEntry_LogName [OF ok] ToEntry_LogName [OF ok'] esc)
qed

section \<open>The claims\<close>

text \<open>
  C1. A record that carries an error under the error key: at severity ERROR, CRITICAL or
  ALERT the message of the entry is the message of the record, a colon and a space, and
  the text of the error, and the context data has no error key; at any other severity
  the context data maps the error key to the text of the error and the message is the
  message of the record.
\<close>

theorem error_moves_into_message:
  assumes "lookup_key h (logrus_Entry.Data e) ErrorKey = Some (VError txt)"
  shows "(severity_of (Level e) \<in> error_severities \<longrightarrow>
            Entry.Message (fst (ToEntry env f e h)) = logrus_Entry.Message e @ '': '' @ txt
            \<and> map_of (context_data (ToEntry env f e h)) ErrorKey = None)
       \<and> (severity_of (Level e) \<notin> error_severities \<longrightarrow>
            map_of (context_data (ToEntry env f e h)) ErrorKey = Some (VString txt)
            \<and> Entry.Message (fst (ToEntry env f e h)) = logrus_Entry.Message e)"
proof -
  have ok: "logrus_Entry.Data e \<noteq> Some (length h)"
    using assms by (rule lookup_key_valid)
  have keys: "ErrorKey \<noteq> KeyTrace" "ErrorKey \<noteq> KeySpanID" "ErrorKey \<noteq> KeyHTTPRequest"
    "ErrorKey \<noteq> KeyLogID"
    by (simp_all add: Key_defs)
  show ?thesis
  proof (intro conjI impI)
    assume sev: "severity_of (Level e) \<in> error_severities"
    show "Entry.Message (fst (ToEntry env f e h)) = logrus_Entry.Message e @ '': '' @ txt"
      using assms by (simp add: ToEntry_Message_error [OF ok sev] replace_error_def)
    show "map_of (context_data (ToEntry env f e h)) ErrorKey = None"
      using sev by (simp add: ToEntry_context_data [OF ok])
  next
    assume sev: "severity_of (Level e) \<notin> error_severities"
    show "map_of (context_data (ToEntry env f e h)) ErrorKey = Some (VString txt)"
      using sev keys assms by (simp add: ToEntry_context_data [OF ok] replace_error_def)
    show "Entry.Message (fst (ToEntry env f e h)) = logrus_Entry.Message e"
      using sev by (rule ToEntry_Message_below)
  qed
qed

theorem error_moves_into_message_witness:
  "lookup_key [[(''foo'', VString ''bar''), (''error'', VError ''test error'')]] (Some 0) ErrorKey
     = Some (VError ''test error'')
   \<and> severity_of ErrorLevel \<in> error_severities
   \<and> severity_of InfoLevel \<notin> error_severities
   \<and> Entry.Message
        (fst (ToEntry \<lparr>skipTimestamp = True, now = [], callers = []\<rparr> (NewFormatter [])
               \<lparr>Data = Some 0, Message = ''my log entry'', Level = ErrorLevel\<rparr>
               [[(''foo'', VString ''bar''), (''error'', VError ''test error'')]]))
       = ''my log entry: test error''
   \<and> map_of
        (context_data
          (ToEntry \<lparr>skipTimestamp = True, now = [], callers = []\<rparr> (NewFormatter [])
             \<lparr>Data = Some 0, Message = ''my log entry'', Level = InfoLevel\<rparr>
             [[(''foo'', VString ''bar''), (''error'', VError ''test error'')]]))
        ErrorKey
       = Some (VString ''test error'')"
  using
    error_moves_into_message
      [of "[[(''foo'', VString ''bar''), (''error'', VError ''test error'')]]"
          "\<lparr>Data = Some 0, Message = ''my log entry'', Level = ErrorLevel\<rparr>" "''test error''"
          "\<lparr>skipTimestamp = True, now = [], callers = []\<rparr>" "NewFormatter []"]
    error_moves_into_message
      [of "[[(''foo'', VString ''bar''), (''error'', VError ''test error'')]]"
          "\<lparr>Data = Some 0, Message = ''my log entry'', Level = InfoLevel\<rparr>" "''test error''"
          "\<lparr>skipTimestamp = True, now = [], callers = []\<rparr>" "NewFormatter []"]
  by (simp add: lookup_key_def fields_at_def Key_defs severity_of_def levelsToSeverity_def
      Level_defs severity_defs error_severities_def)

text \<open>
  C2, as the claim states it: a value under httpRequest that is not a *HTTPRequest (the
  map of the README) stays in the context data.
\<close>

theorem recognized_key_stays_counterexample:
  "map_of
     (context_data
       (ToEntry \<lparr>skipTimestamp = True, now = [], callers = []\<rparr> (NewFormatter [])
          \<lparr>Data = Some 0, Message = ''my log entry'', Level = InfoLevel\<rparr>
          [[(''httpRequest'',
             VOther ''map[method:GET]'' (Some (JObject [(''method'', JString ''GET'')])))]]))
     KeyHTTPRequest
   = Some (VOther ''map[method:GET]'' (Some (JObject [(''method'', JString ''GET'')])))"
  by (simp add: eval_defs)

text \<open>
  C2, amended. A recognized key whose value has the type that its extraction asserts (a
  string under trace and spanID, a *HTTPRequest under httpRequest, a string under logID
  when the project id is not empty) is not in the context data of the entry, and the
  value is in its own field: Trace, SpanID, HTTPRequest and Context.HTTPRequest, and,
  qualified, LogName. A recognized key with a value of another type (and logID with any
  value when the project id is empty) is left in the context data, an error as its
  text, and its own field stays unset.
\<close>

theorem recognized_keys_extracted:
  "(\<forall>str. lookup_key h (logrus_Entry.Data e) KeyTrace = Some (VString str) \<longrightarrow>
       map_of (context_data (ToEntry env f e h)) KeyTrace = None
       \<and> Trace (fst (ToEntry env f e h)) = str)
   \<and> (\<forall>str. lookup_key h (logrus_Entry.Data e) KeySpanID = Some (VString str) \<longrightarrow>
       map_of (context_data (ToEntry env f e h)) KeySpanID = None
       \<and> SpanID (fst (ToEntry env f e h)) = str)
   \<and> (\<forall>req. lookup_key h (logrus_Entry.Data e) KeyHTTPRequest = Some (VHTTPRequest req) \<longrightarrow>
       map_of (context_data (ToEntry env f e h)) KeyHTTPRequest = None
       \<and> Entry.HTTPRequest (fst (ToEntry env f e h)) = req
       \<and> ctx_HTTPRequest (fst (ToEntry env f e h)) = req)
   \<and> (\<forall>str. ProjectID f \<noteq> []
         \<and> lookup_key h (logrus_Entry.Data e) KeyLogID = Some (VString str) \<longrightarrow>
       map_of (context_data (ToEntry env f e h)) KeyLogID = None
       \<and> LogName (fst (ToEntry env f e h))
           = ''projects/'' @ ProjectID f @ ''/logs/'' @ QueryEscape str)
   \<and> (\<forall>v. lookup_key h (logrus_Entry.Data e) KeyTrace = Some v \<and> as_string v = None \<longrightarrow>
       map_of (context_data (ToEntry env f e h)) KeyTrace = Some (replace_error v)
       \<and> Trace (fst (ToEntry env f e h)) = [])
   \<and> (\<forall>v. lookup_key h (logrus_Entry.Data e) KeySpanID = Some v \<and> as_string v = None \<longrightarrow>
       map_of (context_data (ToEntry env f e h)) KeySpanID = Some (replace_error v)
       \<and> SpanID (fst (ToEntry env f e h)) = [])
   \<and> (\<forall>v. lookup_key h (logrus_Entry.Data e) KeyHTTPRequest = Some v
         \<and> as_HTTPRequest v = None \<longrightarrow>
       map_of (context_data (ToEntry env f e h)) KeyHTTPRequest = Some (replace_error v)
       \<and> Entry.HTTPRequest (fst (ToEntry env f e h)) = None
       \<and> ctx_HTTPRequest (fst (ToEntry env f e h)) = None)
   \<and> (\<forall>v. lookup_key h (logrus_Entry.Data e) KeyLogID = Some v
         \<and> (ProjectID f = [] \<or> as_string v = None) \<longrightarrow>
       map_of (context_data (ToEntry env f e h)) KeyLogID = Some (replace_error v)
       \<and> LogName (fst (ToEntry env f e h)) = [])"
proof -
  have keys: "KeyTrace \<noteq> ErrorKey" "KeySpanID \<noteq> ErrorKey" "KeyHTTPRequest \<noteq> ErrorKey"
    "KeyLogID \<noteq> ErrorKey"
    by (simp_all add: Key_defs)
  have extracted:
    "(\<forall>str. lookup_key h (logrus_Entry.Data e) KeyTrace = Some (VString str) \<longrightarrow>
       map_of (context_data (ToEntry env f e h)) KeyTrace = None
       \<and> Trace (fst (ToEntry env f e h)) = str)"
    "(\<forall>str. lookup_key h (logrus_Entry.Data e) KeySpanID = Some (VString str) \<longrightarrow>
       map_of (context_data (ToEntry env f e h)) KeySpanID = None
       \<and> SpanID (fst (ToEntry env f e h)) = str)"
    "(\<forall>req. lookup_key h (logrus_Entry.Data e) KeyHTTPRequest = Some (VHTTPRequest req) \<longrightarrow>
       map_of (context_data (ToEntry env f e h)) KeyHTTPRequest = None
       \<and> Entry.HTTPRequest (fst (ToEntry env f e h)) = req
       \<and> ctx_HTTPRequest (fst (ToEntry env f e h)) = req)"
    "(\<forall>str. ProjectID f \<noteq> []
         \<and> lookup_key h (logrus_Entry.Data e) KeyLogID = Some (VString str) \<longrightarrow>
       map_of (context_data (ToEntry env f e h)) KeyLogID = None
       \<and> LogName (fst (ToEntry env f e h))
           = ''projects/'' @ ProjectID f @ ''/logs/'' @ QueryEscape str)"
  proof (safe)
    fix str
    assume a: "lookup_key h (logrus_Entry.Data e) KeyTrace = Some (VString str)"
    note ok = lookup_key_valid [OF a]
    show "map_of (context_data (ToEntry env f e h)) KeyTrace = None"
      using a by (simp add: ToEntry_context_data [OF ok])
    show "Trace (fst (ToEntry env f e h)) = str"
      using a by (simp add: ToEntry_Trace [OF ok])
  next
    fix str
    assume a: "lookup_key h (logrus_Entry.Data e) KeySpanID = Some (VString str)"
    note ok = lookup_key_valid [OF a]
    show "map_of (context_data (ToEntry env f e h)) KeySpanID = None"
      using a by (simp add: ToEntry_context_data [OF ok])
    show "SpanID (fst (ToEntry env f e h)) = str"
      using a by (simp add: ToEntry_SpanID [OF ok])
  next
    fix req
    assume a: "lookup_key h (logrus_Entry.Data e) KeyHTTPRequest = Some (VHTTPRequest req)"
    note ok = lookup_key_valid [OF a]
    show "map_of (context_data (ToEntry env f e h)) KeyHTTPRequest = None"
      using a by (simp add: ToEntry_context_data [OF ok])
    show "Entry.HTTPRequest (fst (ToEntry env f e h)) = req"
      using a by (simp add: ToEntry_HTTPRequest [OF ok])
    show "ctx_HTTPRequest (fst (ToEntry env f e h)) = req"
      using a by (simp add: ToEntry_HTTPRequest [OF ok])
  next
    fix str
    assume p: "ProjectID f \<noteq> []"
      and a: "lookup_key h (logrus_Entry.Data e) KeyLogID = Some (VString str)"
    note ok = lookup_key_valid [OF a]
    show "map_of (context_data (ToEntry env f e h)) KeyLogID = None"
      using a p by (simp add: ToEntry_context_data [OF ok])
    show "LogName (fst (ToEntry env f e h))
            = ''projects/'' @ ProjectID f @ ''/logs/'' @ QueryEscape str"
      using a p by (simp add: ToEntry_LogName [OF ok])
  qed
  have trace: "map_of (context_data (ToEntry env f e h)) KeyTrace = Some (replace_error v)
       \<and> Trace (fst (ToEntry env f e h)) = []"
    if a: "lookup_key h (logrus_Entry.Data e) KeyTrace = Some v" and n: "as_string v = None" for v
  proof -
    note ok = lookup_key_valid [OF a]
    have others: "KeyTrace \<noteq> KeySpanID" "KeyTrace \<noteq> KeyHTTPRequest" "KeyTrace \<noteq> KeyLogID"
      by (simp_all add: Key_defs)
    show ?thesis
      using a n keys others by (simp add: ToEntry_context_data [OF ok] ToEntry_Trace [OF ok])
  qed
  have span: "map_of (context_data (ToEntry env f e h)) KeySpanID = Some (replace_error v)
       \<and> SpanID (fst (ToEntry env f e h)) = []"
    if a: "lookup_key h (logrus_Entry.Data e) KeySpanID = Some v" and n: "as_string v = None" for v
  proof -
    note ok = lookup_key_valid [OF a]
    have others: "KeySpanID \<noteq> KeyTrace" "KeySpanID \<noteq> KeyHTTPRequest" "KeySpanID \<noteq> KeyLogID"
      by (simp_all add: Key_defs)
    show ?thesis
      using a n keys others by (simp add: ToEntry_context_data [OF ok] ToEntry_SpanID [OF ok])
  qed
  have request: "map_of (context_data (ToEntry env f e h)) KeyHTTPRequest = Some (replace_error v)
       \<and> Entry.HTTPRequest (fst (ToEntry env f e h)) = None
       \<and> ctx_HTTPRequest (fst (ToEntry env f e h)) = None"
    if a: "lookup_key h (logrus_Entry.Data e) KeyHTTPRequest = Some v"
      and n: "as_HTTPRequest v = None" for v
  proof -
    note ok = lookup_key_valid [OF a]
    have others: "KeyHTTPRequest \<noteq> KeyTrace" "KeyHTTPRequest \<noteq> KeySpanID"
      "KeyHTTPRequest \<noteq> KeyLogID"
      by (simp_all add: Key_defs)
    show ?thesis
      using a n keys others
      by (simp add: ToEntry_context_data [OF ok] ToEntry_HTTPRequest [OF ok])
  qed
  have logid: "map_of (context_data (ToEntry env f e h)) KeyLogID = Some (replace_error v)
       \<and> LogName (fst (ToEntry env f e h)) = []"
    if a: "lookup_key h (logrus_Entry.Data e) KeyLogID = Some v"
      and n: "ProjectID f = [] \<or> as_string v = None" for v
  proof -
    note ok = lookup_key_valid [OF a]
    have others: "KeyLogID \<noteq> KeyTrace" "KeyLogID \<noteq> KeySpanID" "KeyLogID \<noteq> KeyHTTPRequest"
      by (simp_all add: Key_defs)
    show ?thesis
      using a n keys others
      by (auto simp: ToEntry_context_data [OF ok] ToEntry_LogName [OF ok] split: option.splits)
  qed
  from extracted trace span request logid show ?thesis
    by blast
qed

theorem recognized_keys_extracted_witness:
  "lookup_key
     [[(''trace'', VString ''my-trace''), (''spanID'', VString ''my-span''),
       (''httpRequest'', VHTTPRequest None), (''logID'', VString ''my-id'')]]
     (Some 0) KeyTrace = Some (VString ''my-trace'')
   \<and> lookup_key
     [[(''trace'', VString ''my-trace''), (''spanID'', VString ''my-span''),
       (''httpRequest'', VHTTPRequest None), (''logID'', VString ''my-id'')]]
     (Some 0) KeySpanID = Some (VString ''my-span'')
   \<and> lookup_key
     [[(''trace'', VString ''my-trace''), (''spanID'', VString ''my-span''),
       (''httpRequest'', VHTTPRequest None), (''logID'', VString ''my-id'')]]
     (Some 0) KeyHTTPRequest = Some (VHTTPRequest None)
   \<and> lookup_key
     [[(''trace'', VString ''my-trace''), (''spanID'', VString ''my-span''),
       (''httpRequest'', VHTTPRequest None), (''logID'', VString ''my-id'')]]
     (Some 0) KeyLogID = Some (VString ''my-id'')
   \<and> ProjectID (NewFormatter [WithProjectID ''my-project'']) \<noteq> []
   \<and> Trace
        (fst (ToEntry \<lparr>skipTimestamp = True, now = [], callers = []\<rparr> (NewFormatter [WithProjectID ''my-project''])
               \<lparr>Data = Some 0, Message = ''my log entry'', Level = InfoLevel\<rparr>
     [[(''trace'', VString ''my-trace''), (''spanID'', VString ''my-span''),
       (''httpRequest'', VHTTPRequest None), (''logID'', VString ''my-id'')]]))
       = ''my-trace''
   \<and> SpanID
        (fst (ToEntry \<lparr>skipTimestamp = True, now = [], callers = []\<rparr> (NewFormatter [WithProjectID ''my-project''])
               \<lparr>Data = Some 0, Message = ''my log entry'', Level = InfoLevel\<rparr>
     [[(''trace'', VString ''my-trace''), (''spanID'', VString ''my-span''),
       (''httpRequest'', VHTTPRequest None), (''logID'', VString ''my-id'')]]))
       = ''my-span''
   \<and> map_of
        (context_data
          (ToEntry \<lparr>skipTimestamp = True, now = [], callers = []\<rparr> (NewFormatter [WithProjectID ''my-project''])
             \<lparr>Data = Some 0, Message = ''my log entry'', Level = InfoLevel\<rparr>
     [[(''trace'', VString ''my-trace''), (''spanID'', VString ''my-span''),
       (''httpRequest'', VHTTPRequest None), (''logID'', VString ''my-id'')]]))
        KeyHTTPRequest
       = None
   \<and> map_of
        (context_data
          (ToEntry \<lparr>skipTimestamp = True, now = [], callers = []\<rparr> (NewFormatter [WithProjectID ''my-project''])
             \<lparr>Data = Some 0, Message = ''my log entry'', Level = InfoLevel\<rparr>
     [[(''trace'', VString ''my-trace''), (''spanID'', VString ''my-span''),
       (''httpRequest'', VHTTPRequest None), (''logID'', VString ''my-id'')]]))
        KeyLogID
       = None
   \<and> lookup_key
     [[(''trace'', VOther ''%!s(int=5)'' (Some (JNumber 5))), (''spanID'', VError ''boom''),
       (''httpRequest'',
        VOther ''map[method:GET]'' (Some (JObject [(''method'', JString ''GET'')]))),
       (''logID'', VString ''my-id'')]]
     (Some 0) KeyTrace = Some (VOther ''%!s(int=5)'' (Some (JNumber 5)))
   \<and> as_string (VOther ''%!s(int=5)'' (Some (JNumber 5))) = None
   \<and> lookup_key
     [[(''trace'', VOther ''%!s(int=5)'' (Some (JNumber 5))), (''spanID'', VError ''boom''),
       (''httpRequest'',
        VOther ''map[method:GET]'' (Some (JObject [(''method'', JString ''GET'')]))),
       (''logID'', VString ''my-id'')]]
     (Some 0) KeySpanID = Some (VError ''boom'')
   \<and> as_string (VError ''boom'') = None
   \<and> lookup_key
     [[(''trace'', VOther ''%!s(int=5)'' (Some (JNumber 5))), (''spanID'', VError ''boom''),
       (''httpRequest'',
        VOther ''map[method:GET]'' (Some (JObject [(''method'', JString ''GET'')]))),
       (''logID'', VString ''my-id'')]]
     (Some 0) KeyHTTPRequest = Some (VOther ''map[method:GET]'' (Some (JObject [(''method'', JString ''GET'')])))
   \<and> as_HTTPRequest (VOther ''map[method:GET]'' (Some (JObject [(''method'', JString ''GET'')]))) = None
   \<and> lookup_key
     [[(''trace'', VOther ''%!s(int=5)'' (Some (JNumber 5))), (''spanID'', VError ''boom''),
       (''httpRequest'',
        VOther ''map[method:GET]'' (Some (JObject [(''method'', JString ''GET'')]))),
       (''logID'', VString ''my-id'')]]
     (Some 0) KeyLogID = Some (VString ''my-id'')
   \<and> ProjectID (NewFormatter []) = []
   \<and> map_of
        (context_data
          (ToEntry \<lparr>skipTimestamp = True, now = [], callers = []\<rparr> (NewFormatter [])
             \<lparr>Data = Some 0, Message = ''my log entry'', Level = InfoLevel\<rparr>
     [[(''trace'', VOther ''%!s(int=5)'' (Some (JNumber 5))), (''spanID'', VError ''boom''),
       (''httpRequest'',
        VOther ''map[method:GET]'' (Some (JObject [(''method'', JString ''GET'')]))),
       (''logID'', VString ''my-id'')]]))
        KeyTrace
       = Some (VOther ''%!s(int=5)'' (Some (JNumber 5)))
   \<and> map_of
        (context_data
          (ToEntry \<lparr>skipTimestamp = True, now = [], callers = []\<rparr> (NewFormatter [])
             \<lparr>Data = Some 0, Message = ''my log entry'', Level = InfoLevel\<rparr>
     [[(''trace'', VOther ''%!s(int=5)'' (Some (JNumber 5))), (''spanID'', VError ''boom''),
       (''httpRequest'',
        VOther ''map[method:GET]'' (Some (JObject [(''method'', JString ''GET'')]))),
       (''logID'', VString ''my-id'')]]))
        KeySpanID
       = Some (VString ''boom'')
   \<and> map_of
        (context_data
          (ToEntry \<lparr>skipTimestamp = True, now = [], callers = []\<rparr> (NewFormatter [])
             \<lparr>Data = Some 0, Message = ''my log entry'', Level = InfoLevel\<rparr>
     [[(''trace'', VOther ''%!s(int=5)'' (Some (JNumber 5))), (''spanID'', VError ''boom''),
       (''httpRequest'',
        VOther ''map[method:GET]'' (Some (JObject [(''method'', JString ''GET'')]))),
       (''logID'', VString ''my-id'')]]))
        KeyHTTPRequest
       = Some (VOther ''map[method:GET]'' (Some (JObject [(''method'', JString ''GET'')])))
   \<and> map_of
        (context_data
          (ToEntry \<lparr>skipTimestamp = True, now = [], callers = []\<rparr> (NewFormatter [])
             \<lparr>Data = Some 0, Message = ''my log entry'', Level = InfoLevel\<rparr>
     [[(''trace'', VOther ''%!s(int=5)'' (Some (JNumber 5))), (''spanID'', VError ''boom''),
       (''httpRequest'',
        VOther ''map[method:GET]'' (Some (JObject [(''method'', JString ''GET'')]))),
       (''logID'', VString ''my-id'')]]))
        KeyLogID
       = Some (VString ''my-id'')
   \<and> LogName
        (fst (ToEntry \<lparr>skipTimestamp = True, now = [], callers = []\<rparr> (NewFormatter [])
               \<lparr>Data = Some 0, Message = ''my log entry'', Level = InfoLevel\<rparr>
     [[(''trace'', VOther ''%!s(int=5)'' (Some (JNumber 5))), (''spanID'', VError ''boom''),
       (''httpRequest'',
        VOther ''map[method:GET]'' (Some (JObject [(''method'', JString ''GET'')]))),
       (''logID'', VString ''my-id'')]]))
       = []"
  using
    recognized_keys_extracted
      [of "[[(''trace'', VString ''my-trace''), (''spanID'', VString ''my-span''),
       (''httpRequest'', VHTTPRequest None), (''logID'', VString ''my-id'')]]"
          "\<lparr>Data = Some 0, Message = ''my log entry'', Level = InfoLevel\<rparr>"
          "\<lparr>skipTimestamp = True, now = [], callers = []\<rparr>"
          "NewFormatter [WithProjectID ''my-project'']"]
    recognized_keys_extracted
      [of "[[(''trace'', VOther ''%!s(int=5)'' (Some (JNumber 5))), (''spanID'', VError ''boom''),
       (''httpRequest'',
        VOther ''map[method:GET]'' (Some (JObject [(''method'', JString ''GET'')]))),
       (''logID'', VString ''my-id'')]]"
          "\<lparr>Data = Some 0, Message = ''my log entry'', Level = InfoLevel\<rparr>"
          "\<lparr>skipTimestamp = True, now = [], callers = []\<rparr>"
          "NewFormatter []"]
  by (simp add: lookup_key_def fields_at_def Key_defs NewFormatter_def WithProjectID_def
      replace_error_def)

text \<open>
  C3. The code at a stack that ends before a frame outside the skip list is found: a
  formatter that skips the packages main and runtime, called from main. errorOrigin
  returns the zero call with a nil error, so the test at line 252 succeeds and ToEntry
  sets both locations, to what the verbs print for the zero call. The claim has them
  unset there.
\<close>

theorem exhausted_stack_sets_location:
  "errorOrigin
     \<lparr>skipTimestamp = True, now = [],
      callers =
        [\<lparr>pkgPath = ''github.com/shortcut/logrus-stackdriver-formatter'',
          filePath = ''github.com/shortcut/logrus-stackdriver-formatter/formatter.go'',
          lineNo = 158, funcName = ''(*Formatter).errorOrigin''\<rparr>,
         \<lparr>pkgPath = ''github.com/shortcut/logrus-stackdriver-formatter'',
          filePath = ''github.com/shortcut/logrus-stackdriver-formatter/formatter.go'',
          lineNo = 252, funcName = ''(*Formatter).ToEntry''\<rparr>,
         \<lparr>pkgPath = ''github.com/shortcut/logrus-stackdriver-formatter'',
          filePath = ''github.com/shortcut/logrus-stackdriver-formatter/formatter.go'',
          lineNo = 269, funcName = ''(*Formatter).Format''\<rparr>,
         \<lparr>pkgPath = ''main'', filePath = ''main.go'', lineNo = 12, funcName = ''main''\<rparr>,
         \<lparr>pkgPath = ''runtime'', filePath = ''runtime/proc.go'', lineNo = 250,
          funcName = ''main''\<rparr>,
         \<lparr>pkgPath = ''runtime'', filePath = ''runtime/asm_amd64.s'', lineNo = 1594,
          funcName = ''goexit''\<rparr>]\<rparr>
     (NewFormatter [WithStackSkip ''main'', WithStackSkip ''runtime''])
   = (None, None)
   \<and> fst (Format
     \<lparr>skipTimestamp = True, now = [],
      callers =
        [\<lparr>pkgPath = ''github.com/shortcut/logrus-stackdriver-formatter'',
          filePath = ''github.com/shortcut/logrus-stackdriver-formatter/formatter.go'',
          lineNo = 158, funcName = ''(*Formatter).errorOrigin''\<rparr>,
         \<lparr>pkgPath = ''github.com/shortcut/logrus-stackdriver-formatter'',
          filePath = ''github.com/shortcut/logrus-stackdriver-formatter/formatter.go'',
          lineNo = 252, funcName = ''(*Formatter).ToEntry''\<rparr>,
         \<lparr>pkgPath = ''github.com/shortcut/logrus-stackdriver-formatter'',
          filePath = ''github.com/shortcut/logrus-stackdriver-formatter/formatter.go'',
          lineNo = 269, funcName = ''(*Formatter).Format''\<rparr>,
         \<lparr>pkgPath = ''main'', filePath = ''main.go'', lineNo = 12, funcName = ''main''\<rparr>,
         \<lparr>pkgPath = ''runtime'', filePath = ''runtime/proc.go'', lineNo = 250,
          funcName = ''main''\<rparr>,
         \<lparr>pkgPath = ''runtime'', filePath = ''runtime/asm_amd64.s'', lineNo = 1594,
          funcName = ''goexit''\<rparr>]\<rparr>
     (NewFormatter [WithStackSkip ''main'', WithStackSkip ''runtime''])
     \<lparr>Data = Some 0, Message = ''my log entry'', Level = ErrorLevel\<rparr> [[]])
   = Inr (JObject
           [(''serviceContext'', JObject []),
            (''message'', JString ''my log entry''),
            (''severity'', JString ''ERROR''),
            (''context'',
             JObject
               [(''reportLocation'',
                 JObject
                   [(''filePath'', JString ''%!s(NOFUNC)''),
                    (''functionName'', JString ''%!n(NOFUNC)'')])]),
            (''sourceLocation'',
             JObject
               [(''filePath'', JString ''%!s(NOFUNC)''),
                (''functionName'', JString ''%!n(NOFUNC)'')])])"
  by (simp add: eval_defs errorOrigin_from.simps Caller_def MarshalText_def fmt_plus_k_def
      fmt_plus_s_def fmt_d_def fmt_n_def skip_def strip_vendor_first ParseInt_def digit_of_def)

text \<open>
  C4. The code at a package path with two vendor markers, a copy of logrus vendored by a
  vendored library: the path is cut after the first marker, not after the last, so the
  rest is not the path of logrus and errorOrigin answers with the frame of logrus
  itself. A path with one marker is recognized.
\<close>

theorem nested_vendor_not_stripped:
  "strip_vendor ''example.com/app/vendor/github.com/sirupsen/logrus''
     = ''github.com/sirupsen/logrus''
   \<and> strip_vendor ''example.com/app/vendor/example.com/lib/vendor/github.com/sirupsen/logrus''
     = ''example.com/lib/vendor/github.com/sirupsen/logrus''
   \<and> errorOrigin
     \<lparr>skipTimestamp = True, now = [],
      callers =
        [\<lparr>pkgPath = ''github.com/shortcut/logrus-stackdriver-formatter'',
          filePath = ''github.com/shortcut/logrus-stackdriver-formatter/formatter.go'',
          lineNo = 158, funcName = ''(*Formatter).errorOrigin''\<rparr>,
         \<lparr>pkgPath = ''github.com/shortcut/logrus-stackdriver-formatter'',
          filePath = ''github.com/shortcut/logrus-stackdriver-formatter/formatter.go'',
          lineNo = 252, funcName = ''(*Formatter).ToEntry''\<rparr>,
         \<lparr>pkgPath = ''github.com/shortcut/logrus-stackdriver-formatter'',
          filePath = ''github.com/shortcut/logrus-stackdriver-formatter/formatter.go'',
          lineNo = 269, funcName = ''(*Formatter).Format''\<rparr>,
         \<lparr>pkgPath = ''example.com/app/vendor/example.com/lib/vendor/github.com/sirupsen/logrus'',
          filePath =
            ''example.com/app/vendor/example.com/lib/vendor/github.com/sirupsen/logrus/entry.go'',
          lineNo = 286, funcName = ''(*Entry).write''\<rparr>,
         \<lparr>pkgPath = ''example.com/app/vendor/example.com/lib'',
          filePath = ''example.com/app/vendor/example.com/lib/lib.go'', lineNo = 40, funcName = ''Run''\<rparr>]\<rparr>
     (NewFormatter [])
   = (Some \<lparr>pkgPath =
               ''example.com/app/vendor/example.com/lib/vendor/github.com/sirupsen/logrus'',
             filePath =
               ''example.com/app/vendor/example.com/lib/vendor/github.com/sirupsen/logrus/entry.go'',
             lineNo = 286, funcName = ''(*Entry).write''\<rparr>,
      None)"
  by (simp add: errorOrigin_def errorOrigin_from.simps Caller_def MarshalText_def fmt_plus_k_def
      skip_def strip_vendor_first NewFormatter_def)

text \<open>
  C5. A record whose severity is DEBUG, INFO, WARNING or empty (a level that the table
  does not map): the entry has no source location and its context no report location,
  and the document that Format writes has no member sourceLocation and no member
  reportLocation in its context.
\<close>

theorem no_location_below_error:
  assumes "severity_of (Level e) \<in> {severityDebug, severityInfo, severityWarning, []}"
  shows "SourceLocation (fst (ToEntry env f e h)) = None
       \<and> ctx_ReportLocation (fst (ToEntry env f e h)) = None
       \<and> (\<forall>j. fst (Format env f e h) = Inr j \<longrightarrow>
             member ''sourceLocation'' j = None
             \<and> (\<forall>cj. member ''context'' j = Some cj \<longrightarrow> member ''reportLocation'' cj = None))"
proof -
  let ?ee = "fst (ToEntry env f e h)" and ?h = "snd (ToEntry env f e h)"
  have sev: "severity_of (Level e) \<notin> error_severities"
    using assms by (rule below_error)
  have src: "SourceLocation ?ee = None" and ctx: "ctx_ReportLocation ?ee = None"
    using sev by (rule ToEntry_location_below)+
  have doc: "member ''sourceLocation'' j = None
             \<and> (\<forall>cj. member ''context'' j = Some cj \<longrightarrow> member ''reportLocation'' cj = None)"
    if "fst (Format env f e h) = Inr j" for j
  proof -
    from that have m: "marshal_Entry ?h ?ee = Inr j"
      by (simp add: fst_Format)
    obtain c where c: "Context ?ee = Some c"
      using ToEntry_Context by blast
    with ctx have loc: "Context.ReportLocation c = None"
      by (simp add: ctx_ReportLocation_def)
    from marshal_Entry_context [OF m c] obtain cj
      where cj: "marshal_Context ?h c = Inr cj" "member ''context'' j = Some cj"
      by blast
    have "member ''reportLocation'' cj = None"
      using marshal_Context_members(2) [OF cj(1)] loc by simp
    moreover have "member ''sourceLocation'' j = None"
      using marshal_Entry_members(10) [OF m] src by simp
    ultimately show ?thesis
      using cj(2) by simp
  qed
  from src ctx doc show ?thesis by blast
qed

theorem no_location_below_error_witness:
  "severity_of InfoLevel \<in> {severityDebug, severityInfo, severityWarning, []}
   \<and> fst (Format \<lparr>skipTimestamp = True, now = [], callers = []\<rparr>
            (NewFormatter [WithService ''test'', WithVersion ''0.1''])
            \<lparr>Data = Some 0, Message = ''my log entry'', Level = InfoLevel\<rparr>
            [[(''foo'', VString ''bar'')]])
       = Inr (JObject
               [(''serviceContext'',
                 JObject [(''service'', JString ''test''), (''version'', JString ''0.1'')]),
                (''message'', JString ''my log entry''),
                (''severity'', JString ''INFO''),
                (''context'', JObject [(''data'', JObject [(''foo'', JString ''bar'')])])])
   \<and> member ''context''
        (JObject
          [(''serviceContext'',
            JObject [(''service'', JString ''test''), (''version'', JString ''0.1'')]),
           (''message'', JString ''my log entry''),
           (''severity'', JString ''INFO''),
           (''context'', JObject [(''data'', JObject [(''foo'', JString ''bar'')])])])
       = Some (JObject [(''data'', JObject [(''foo'', JString ''bar'')])])
   \<and> member ''reportLocation'' (JObject [(''data'', JObject [(''foo'', JString ''bar'')])]) = None
   \<and> SourceLocation
        (fst (ToEntry \<lparr>skipTimestamp = True, now = [], callers = []\<rparr>
               (NewFormatter [WithService ''test'', WithVersion ''0.1''])
               \<lparr>Data = Some 0, Message = ''my log entry'', Level = InfoLevel\<rparr>
               [[(''foo'', VString ''bar'')]]))
       = None"
  using no_location_below_error
      [of "\<lparr>Data = Some 0, Message = ''my log entry'', Level = InfoLevel\<rparr>"
          "\<lparr>skipTimestamp = True, now = [], callers = []\<rparr>"
          "NewFormatter [WithService ''test'', WithVersion ''0.1'']"
          "[[(''foo'', VString ''bar'')]]"]
  by (simp add: eval_defs)

text \<open>
  C6. A field map with a string under the log-name key: with a project identifier the
  log name of the entry is projects/, the project, /logs/ and the query-escaped string,
  and the context data has no log-name key; without one the context data keeps the key
  with its string and the entry has no log name.
\<close>

theorem log_name_needs_project:
  assumes "lookup_key h (logrus_Entry.Data e) KeyLogID = Some (VString str)"
  shows "(ProjectID f \<noteq> [] \<longrightarrow>
            LogName (fst (ToEntry env f e h))
              = ''projects/'' @ ProjectID f @ ''/logs/'' @ QueryEscape str
            \<and> map_of (context_data (ToEntry env f e h)) KeyLogID = None)
       \<and> (ProjectID f = [] \<longrightarrow>
            map_of (context_data (ToEntry env f e h)) KeyLogID = Some (VString str)
            \<and> LogName (fst (ToEntry env f e h)) = [])"
proof -
  have ok: "logrus_Entry.Data e \<noteq> Some (length h)"
    using assms by (rule lookup_key_valid)
  have keys: "KeyLogID \<noteq> KeyTrace" "KeyLogID \<noteq> KeySpanID" "KeyLogID \<noteq> KeyHTTPRequest"
    "KeyLogID \<noteq> ErrorKey"
    by (simp_all add: Key_defs)
  show ?thesis
    using assms keys
    by (simp add: ToEntry_LogName [OF ok] ToEntry_context_data [OF ok] replace_error_def)
qed

theorem log_name_needs_project_witness:
  "lookup_key [[(''logID'', VString ''my id'')]] (Some 0) KeyLogID = Some (VString ''my id'')
   \<and> ProjectID (NewFormatter [WithProjectID ''my-project-id'']) \<noteq> []
   \<and> ProjectID (NewFormatter []) = []
   \<and> LogName
        (fst (ToEntry \<lparr>skipTimestamp = True, now = [], callers = []\<rparr>
               (NewFormatter [WithProjectID ''my-project-id''])
               \<lparr>Data = Some 0, Message = ''my log entry'', Level = InfoLevel\<rparr>
               [[(''logID'', VString ''my id'')]]))
       = ''projects/my-project-id/logs/my+id''
   \<and> map_of
        (context_data
          (ToEntry \<lparr>skipTimestamp = True, now = [], callers = []\<rparr> (NewFormatter [])
             \<lparr>Data = Some 0, Message = ''my log entry'', Level = InfoLevel\<rparr>
             [[(''logID'', VString ''my id'')]]))
        KeyLogID
       = Some (VString ''my id'')"
  using
    log_name_needs_project
      [of "[[(''logID'', VString ''my id'')]]"
          "\<lparr>Data = Some 0, Message = ''my log entry'', Level = InfoLevel\<rparr>" "''my id''"
          "NewFormatter [WithProjectID ''my-project-id'']"
          "\<lparr>skipTimestamp = True, now = [], callers = []\<rparr>"]
    log_name_needs_project
      [of "[[(''logID'', VString ''my id'')]]"
          "\<lparr>Data = Some 0, Message = ''my log entry'', Level = InfoLevel\<rparr>" "''my id''"
          "NewFormatter []"
          "\<lparr>skipTimestamp = True, now = [], callers = []\<rparr>"]
  by (simp add: lookup_key_def fields_at_def Key_defs NewFormatter_def WithProjectID_def
      QueryEscape_def escape_byte_def shouldEscape_def)

text \<open>
  C7. The code at the input of the claim, which is the input of TestProject: project id
  my-project-id and the field logID = my-id at level info. The log name is the
  qualified name of line 229, projects/my-project-id/logs/my-id; the claim and the test
  have my-id.
\<close>

theorem log_name_at_TestProject:
  "fst (Format \<lparr>skipTimestamp = True, now = [], callers = []\<rparr>
          (NewFormatter
            [WithService ''test'', WithVersion ''0.1'', WithProjectID ''my-project-id''])
          \<lparr>Data = Some 0, Message = ''my log entry'', Level = InfoLevel\<rparr>
          [[(''logID'', VString ''my-id'')]])
     = Inr (JObject
             [(''logName'', JString ''projects/my-project-id/logs/my-id''),
              (''serviceContext'',
               JObject [(''service'', JString ''test''), (''version'', JString ''0.1'')]),
              (''message'', JString ''my log entry''),
              (''severity'', JString ''INFO''),
              (''context'', JObject [])])
   \<and> LogName
        (fst (ToEntry \<lparr>skipTimestamp = True, now = [], callers = []\<rparr>
               (NewFormatter
                 [WithService ''test'', WithVersion ''0.1'', WithProjectID ''my-project-id''])
               \<lparr>Data = Some 0, Message = ''my log entry'', Level = InfoLevel\<rparr>
               [[(''logID'', VString ''my-id'')]]))
       \<noteq> ''my-id''"
  by (simp add: eval_defs)

text \<open>
  C8. Whenever Format writes a document, the document has the member context and it is
  an object, while trace, spanId, httpRequest, logName and sourceLocation are left out
  when the entry does not set them. For a record without fields and below the error
  severities the context is the empty object.
\<close>

theorem context_always_written:
  assumes "fst (Format env f e h) = Inr j"
  shows "(\<exists>ms. member ''context'' j = Some (JObject ms))
       \<and> (Trace (fst (ToEntry env f e h)) = [] \<longrightarrow> member ''trace'' j = None)
       \<and> (SpanID (fst (ToEntry env f e h)) = [] \<longrightarrow> member ''spanId'' j = None)
       \<and> (Entry.HTTPRequest (fst (ToEntry env f e h)) = None \<longrightarrow>
            member ''httpRequest'' j = None)
       \<and> (LogName (fst (ToEntry env f e h)) = [] \<longrightarrow> member ''logName'' j = None)
       \<and> (SourceLocation (fst (ToEntry env f e h)) = None \<longrightarrow>
            member ''sourceLocation'' j = None)
       \<and> (fields_at h (logrus_Entry.Data e) = []
            \<and> severity_of (Level e) \<notin> error_severities \<longrightarrow>
            member ''context'' j = Some (JObject []))"
proof -
  let ?ee = "fst (ToEntry env f e h)" and ?h = "snd (ToEntry env f e h)"
  from assms have m: "marshal_Entry ?h ?ee = Inr j"
    by (simp add: fst_Format)
  obtain c where c: "Context ?ee = Some c"
    using ToEntry_Context by blast
  from marshal_Entry_context [OF m c] obtain cj
    where cj: "marshal_Context ?h c = Inr cj" "member ''context'' j = Some cj"
    by blast
  have "is_object cj"
    using cj(1) by (rule marshal_Context_members)
  then have present: "\<exists>ms. member ''context'' j = Some (JObject ms)"
    using cj(2) by (cases cj) simp_all
  have empty: "member ''context'' j = Some (JObject [])"
    if none: "fields_at h (logrus_Entry.Data e) = []"
      and sev: "severity_of (Level e) \<notin> error_severities"
  proof -
    have "set (context_data (ToEntry env f e h)) \<subseteq> {}"
      using context_data_ToEntry_subset [of env f e h] none by simp
    then have "fields_at ?h (Context.Data c) = []"
      using c by (simp add: context_data_def ctx_Data_def)
    moreover have "Context.ReportLocation c = None"
      using ToEntry_location_below(2) [OF sev, of env f h] c
      by (simp add: ctx_ReportLocation_def)
    moreover have "Context.HTTPRequest c = None"
      using no_fields_no_request [OF none, of env f] c by (simp add: ctx_HTTPRequest_def)
    ultimately have "marshal_Context ?h c = Inr (JObject [])"
      by (simp add: marshal_Context_def omit_pointer_def)
    with cj show ?thesis by simp
  qed
  show ?thesis
    using present empty marshal_Entry_members [OF m] by simp
qed

theorem context_always_written_witness:
  "fst (Format \<lparr>skipTimestamp = True, now = [], callers = []\<rparr> (NewFormatter [])
          \<lparr>Data = Some 0, Message = ''msg'', Level = InfoLevel\<rparr> [[]])
     = Inr (JObject
             [(''serviceContext'', JObject []),
              (''message'', JString ''msg''),
              (''severity'', JString ''INFO''),
              (''context'', JObject [])])
   \<and> Trace (fst (ToEntry \<lparr>skipTimestamp = True, now = [], callers = []\<rparr> (NewFormatter [])
                  \<lparr>Data = Some 0, Message = ''msg'', Level = InfoLevel\<rparr> [[]])) = []
   \<and> SpanID (fst (ToEntry \<lparr>skipTimestamp = True, now = [], callers = []\<rparr> (NewFormatter [])
                  \<lparr>Data = Some 0, Message = ''msg'', Level = InfoLevel\<rparr> [[]])) = []
   \<and> Entry.HTTPRequest
        (fst (ToEntry \<lparr>skipTimestamp = True, now = [], callers = []\<rparr> (NewFormatter [])
               \<lparr>Data = Some 0, Message = ''msg'', Level = InfoLevel\<rparr> [[]])) = None
   \<and> LogName (fst (ToEntry \<lparr>skipTimestamp = True, now = [], callers = []\<rparr> (NewFormatter [])
                  \<lparr>Data = Some 0, Message = ''msg'', Level = InfoLevel\<rparr> [[]])) = []
   \<and> SourceLocation
        (fst (ToEntry \<lparr>skipTimestamp = True, now = [], callers = []\<rparr> (NewFormatter [])
               \<lparr>Data = Some 0, Message = ''msg'', Level = InfoLevel\<rparr> [[]])) = None
   \<and> fields_at [[]] (logrus_Entry.Data \<lparr>Data = Some 0, Message = ''msg'', Level = InfoLevel\<rparr>)
       = []
   \<and> severity_of InfoLevel \<notin> error_severities
   \<and> member ''context''
        (JObject
          [(''serviceContext'', JObject []),
           (''message'', JString ''msg''),
           (''severity'', JString ''INFO''),
           (''context'', JObject [])])
       = Some (JObject [])
   \<and> member ''trace''
        (JObject
          [(''serviceContext'', JObject []),
           (''message'', JString ''msg''),
           (''severity'', JString ''INFO''),
           (''context'', JObject [])])
       = None"
  using context_always_written
      [of "\<lparr>skipTimestamp = True, now = [], callers = []\<rparr>" "NewFormatter []"
          "\<lparr>Data = Some 0, Message = ''msg'', Level = InfoLevel\<rparr>" "[[]]"
          "JObject
            [(''serviceContext'', JObject []),
             (''message'', JString ''msg''),
             (''severity'', JString ''INFO''),
             (''context'', JObject [])]"]
  by (simp add: eval_defs)

text \<open>
  C9, as the claim states it: with an empty service and an empty version the document
  still has the member serviceContext, as an empty object.
\<close>

theorem service_context_dropped_counterexample:
  "fst (Format \<lparr>skipTimestamp = True, now = [], callers = []\<rparr>
          \<lparr>Service = [], Version = [], ProjectID = [], StackSkip = []\<rparr>
          \<lparr>Data = Some 0, Message = ''msg'', Level = InfoLevel\<rparr> [[]])
     = Inr (JObject
             [(''serviceContext'', JObject []),
              (''message'', JString ''msg''),
              (''severity'', JString ''INFO''),
              (''context'', JObject [])])"
  by (simp add: eval_defs)

text \<open>
  C9, amended. ToEntry sets the service context from the configuration on every record,
  and every document that Format writes has the member serviceContext, an object with
  the service and the version that are not empty: the empty object when both are.
\<close>

theorem service_context_always_written:
  "ServiceContext (fst (ToEntry env f e h))
     = Some \<lparr>ServiceContext.Service = Formatter.Service f,
             ServiceContext.Version = Formatter.Version f\<rparr>
   \<and> (\<forall>j. fst (Format env f e h) = Inr j \<longrightarrow>
         member ''serviceContext'' j
           = Some (JObject (omit_string ''service'' (Formatter.Service f)
                            @ omit_string ''version'' (Formatter.Version f)))
         \<and> (Formatter.Service f = [] \<and> Formatter.Version f = [] \<longrightarrow>
              member ''serviceContext'' j = Some (JObject [])))"
proof (intro conjI allI impI)
  show sc: "ServiceContext (fst (ToEntry env f e h))
     = Some \<lparr>ServiceContext.Service = Formatter.Service f,
             ServiceContext.Version = Formatter.Version f\<rparr>"
    by (rule ToEntry_ServiceContext)
  fix j
  assume "fst (Format env f e h) = Inr j"
  then have m: "marshal_Entry (snd (ToEntry env f e h)) (fst (ToEntry env f e h)) = Inr j"
    by (simp add: fst_Format)
  show w: "member ''serviceContext'' j
           = Some (JObject (omit_string ''service'' (Formatter.Service f)
                            @ omit_string ''version'' (Formatter.Version f)))"
    using marshal_Entry_members(7) [OF m] sc by (simp add: marshal_ServiceContext_def)
  assume "Formatter.Service f = [] \<and> Formatter.Version f = []"
  with w show "member ''serviceContext'' j = Some (JObject [])"
    by (simp add: omit_string_def)
qed

theorem service_context_always_written_witness:
  "fst (Format \<lparr>skipTimestamp = True, now = [], callers = []\<rparr>
          \<lparr>Service = [], Version = [], ProjectID = [], StackSkip = []\<rparr>
          \<lparr>Data = None, Message = ''msg'', Level = WarnLevel\<rparr> [])
     = Inr (JObject
             [(''serviceContext'', JObject []),
              (''message'', JString ''msg''),
              (''severity'', JString ''WARNING''),
              (''context'', JObject [])])
   \<and> Formatter.Service \<lparr>Service = [], Version = [], ProjectID = [], StackSkip = []\<rparr> = []
   \<and> Formatter.Version \<lparr>Service = [], Version = [], ProjectID = [], StackSkip = []\<rparr> = []
   \<and> member ''serviceContext''
        (JObject
          [(''serviceContext'', JObject []),
           (''message'', JString ''msg''),
           (''severity'', JString ''WARNING''),
           (''context'', JObject [])])
       = Some (JObject [])"
  using service_context_always_written
      [of "\<lparr>skipTimestamp = True, now = [], callers = []\<rparr>"
          "\<lparr>Service = [], Version = [], ProjectID = [], StackSkip = []\<rparr>"
          "\<lparr>Data = None, Message = ''msg'', Level = WarnLevel\<rparr>" "[]"]
  by (simp add: eval_defs)

text \<open>
  C10. ToEntry and Format leave the field map of the caller as it is: the map at the
  address of the record's Data is the same after the call, as is every other map the
  store held before, and the context data of the entry is another map.
\<close>

theorem caller_fields_unchanged:
  assumes "logrus_Entry.Data e = Some a" and "a < length h"
  shows "snd (ToEntry env f e h) ! a = h ! a
       \<and> snd (Format env f e h) ! a = h ! a
       \<and> take (length h) (snd (ToEntry env f e h)) = h
       \<and> ctx_Data (fst (ToEntry env f e h)) \<noteq> logrus_Entry.Data e"
proof -
  have fresh: "fresh_ctx h (ToEntry env f e h)"
    by (rule fresh_ctx_ToEntry)
  then have t: "take (length h) (snd (ToEntry env f e h)) = h"
    and c: "ctx_Data (fst (ToEntry env f e h)) = Some (length h)"
    by (simp_all add: fresh_ctx_def)
  have "snd (ToEntry env f e h) ! a = take (length h) (snd (ToEntry env f e h)) ! a"
    using assms(2) by simp
  then have "snd (ToEntry env f e h) ! a = h ! a"
    by (simp only: t)
  then show ?thesis
    using t c assms by (simp add: snd_Format)
qed

theorem caller_fields_unchanged_witness:
  "logrus_Entry.Data \<lparr>Data = Some 0, Message = ''my log entry'', Level = ErrorLevel\<rparr> = Some 0
   \<and> (0::nat) < length [[(''trace'', VString ''my-trace''), (''error'', VError ''test error'')]]
   \<and> snd (ToEntry \<lparr>skipTimestamp = True, now = [], callers = []\<rparr> (NewFormatter [])
             \<lparr>Data = Some 0, Message = ''my log entry'', Level = ErrorLevel\<rparr>
             [[(''trace'', VString ''my-trace''), (''error'', VError ''test error'')]]) ! 0
       = [(''trace'', VString ''my-trace''), (''error'', VError ''test error'')]"
  using caller_fields_unchanged
      [of "\<lparr>Data = Some 0, Message = ''my log entry'', Level = ErrorLevel\<rparr>" 0
          "[[(''trace'', VString ''my-trace''), (''error'', VError ''test error'')]]"
          "\<lparr>skipTimestamp = True, now = [], callers = []\<rparr>" "NewFormatter []"]
  by simp

end
